theory Spec2Isabelle
  imports Complex_Main "HOL-Library.Word"
begin

section \<open>Numeric conventions\<close>

text \<open>
  The C++ types \<open>float\<close> and \<open>double\<close> are idealised as \<^typ>\<open>real\<close>: arithmetic is exact,
  the casts \<open>(double)\<close> and \<open>(float)\<close> are identities, and there is no NaN or infinity.
  \<open>pow (x, y)\<close> is \<open>x powr y\<close>, which agrees with the C library for every base
  \<open>x \<ge> 0\<close> and exponent \<open>y > 0\<close>; the transfer function below only ever raises such bases
  (\<open>dMax (\<dots>, 0.0)\<close> in \<open>forward\<close>, a value above \<open>m_beta > 0\<close> in \<open>inverse\<close>).
\<close>

section \<open>TransferFunctionST240.cpp\<close>

record TransferFunctionST240 =
  m_inverseGamma :: real
  m_gamma :: real
  m_alpha :: real
  m_beta :: real
  m_invBeta :: real

text \<open>
  Modelled from the spec: \<open>dMax\<close> is declared in Global.H, which is missing; the spec
  writes \<open>max ((v + alpha) / (1 + alpha), 0)\<close> for its use in \<open>forward\<close>.
  It is named \<open>dMax_fun\<close> here, since Conv444to422Generic.cpp has local variables \<open>dMax\<close>.
\<close>

definition dMax_fun :: "real \<Rightarrow> real \<Rightarrow> real" where
  "dMax_fun a b = (if a > b then a else b)"

definition forward :: "TransferFunctionST240 \<Rightarrow> real \<Rightarrow> real" where
  "forward this v =
     (if v \<le> m_invBeta this then v / 4
      else (dMax_fun ((v + m_alpha this) / (1 + m_alpha this)) 0) powr m_gamma this)"

definition inverse_tf :: "TransferFunctionST240 \<Rightarrow> real \<Rightarrow> real" where
  "inverse_tf this v =
     (if v \<le> m_beta this then 4 * v
      else (1 + m_alpha this) * (v powr m_inverseGamma this) - m_alpha this)"

text \<open>
  The constructor assigns the members one after the other; \<open>this0\<close> is the object as it is
  before the first assignment (its members hold whatever the memory held). The call
  \<open>inverse(m_beta)\<close> runs on the object with \<open>m_invBeta\<close> still unassigned.
\<close>

definition TransferFunctionST240_new :: "TransferFunctionST240 \<Rightarrow> TransferFunctionST240" where
  "TransferFunctionST240_new this0 =
     (let t1 = this0\<lparr>m_inverseGamma := 45 / 100\<rparr>;
          t2 = t1\<lparr>m_gamma := 1 / m_inverseGamma t1\<rparr>;
          t3 = t2\<lparr>m_alpha := 1115 / 10000\<rparr>;
          t4 = t3\<lparr>m_beta := 228 / 10000\<rparr>;
          t5 = t4\<lparr>m_invBeta := inverse_tf t4 (m_beta t4)\<rparr>
      in t5)"

section \<open>Conv444to422Generic.cpp\<close>

subsection \<open>Helpers and types declared in missing headers\<close>

text \<open>
  Modelled from the spec: \<open>iClip\<close> and \<open>fClip\<close> are declared in Global.H, which is
  missing. The spec says that an out-of-range source index is clamped to
  the nearest valid column and that a clipped value is clamped to the range
  \<open>[minValue, maxValue]\<close>; both are the usual two-step clamp, first against the lower
  bound, then against the upper one.
\<close>

definition iClip :: "int \<Rightarrow> int \<Rightarrow> int \<Rightarrow> int" where
  "iClip x low high = min (max x low) high"

definition fClip :: "real \<Rightarrow> real \<Rightarrow> real \<Rightarrow> real" where
  "fClip x low high = min (max x low) high"

text \<open>
  Modelled from the spec: the class \<open>ScaleFilter\<close> is declared in ScaleFilter.H, which is
  missing. The record is the Filter Table of the spec (tap count, centre offset, float
  taps with offset and scale, integer taps with offset and shift, clip flag) under the
  member names by which Conv444to422Generic.cpp reads it. Tap arrays are lists;
  \<open>m_clip == TRUE\<close> is the boolean \<open>m_clip\<close>. The parameter that the source calls
  \<open>filter\<close> is written \<open>filt\<close> below, since \<open>filter\<close> is a function on lists.
\<close>

record ScaleFilter =
  m_numberOfTaps :: int
  m_positionOffset :: int
  m_floatFilter :: "real list"
  m_floatOffset :: real
  m_floatScale :: real
  m_i32Filter :: "int list"
  m_i32Offset :: int
  m_i32Shift :: int
  m_clip :: bool

text \<open>
  Modelled from the spec: the class \<open>Frame\<close> is declared in Frame.H, which is missing.
  The record is the Frame of the spec (representation tag, frame sequence number,
  availability flag, and per component the dimensions, the sample count, the minimum,
  middle and maximum value and the buffer of each of the three representations) under
  the member names by which \<open>process\<close> reads and writes it. The per-component arrays are
  functions of the component index; the pixel planes are lists of samples in row-major
  order, one list per component, so that planes never overlap. \<open>imgpel\<close> is an 8-bit
  and \<open>uint16\<close> a 16-bit unsigned integer.
\<close>

record Frame =
  m_isFloat :: bool
  m_bitDepth :: int
  m_frameNo :: int
  m_isAvailable :: bool
  m_width :: "nat \<Rightarrow> int"
  m_height :: "nat \<Rightarrow> int"
  m_compSize :: "nat \<Rightarrow> int"
  m_minPelValue :: "nat \<Rightarrow> int"
  m_midPelValue :: "nat \<Rightarrow> int"
  m_maxPelValue :: "nat \<Rightarrow> int"
  m_floatComp :: "nat \<Rightarrow> real list"
  m_comp :: "nat \<Rightarrow> 8 word list"
  m_ui16Comp :: "nat \<Rightarrow> 16 word list"

text \<open>
  Modelled from the spec: the component indices, the chroma locations and the field
  positions are enumerations of Global.H, which is missing. The luma component comes
  first and the two chroma components follow it, as the loops from \<open>Y_COMP\<close> and from
  \<open>U_COMP\<close> up to \<open>V_COMP\<close> in \<open>process\<close> require; the chroma location has the six values of
  the spec; \<open>chromaLocationType\<close> is an array indexed by the field position.
\<close>

definition Y_COMP :: nat where "Y_COMP = 0"
definition U_COMP :: nat where "U_COMP = 1"
definition V_COMP :: nat where "V_COMP = 2"

datatype ChromaLocation = CL_ZERO | CL_ONE | CL_TWO | CL_THREE | CL_FOUR | CL_FIVE

datatype FieldPosition = FP_FRAME | FP_BOTTOM

subsection \<open>The converter object and its constructor\<close>

text \<open>
  \<open>m_horFilterM\<close> is a pointer that may be \<open>NULL\<close>: an option. The constructor of
  \<open>ScaleFilter\<close> and the enumerator \<open>DF_F0\<close> are declared in missing headers and are taken
  as parameters: \<open>newScaleFilter\<close> receives the six arguments passed by value (its two
  output arguments \<open>&offset\<close> and \<open>&scale\<close> are locals that the constructor never reads
  afterwards).
\<close>

record Conv444to422Generic =
  m_horFilter :: ScaleFilter
  m_horFilterM :: "ScaleFilter option"
  m_useMinMax :: int

definition hPhase_of :: "(FieldPosition \<Rightarrow> ChromaLocation) \<Rightarrow> int" where
  "hPhase_of chromaLocationType =
     (case chromaLocationType FP_FRAME of
        CL_FIVE \<Rightarrow> 1
      | CL_FOUR \<Rightarrow> 0
      | CL_THREE \<Rightarrow> 1
      | CL_TWO \<Rightarrow> 0
      | CL_ONE \<Rightarrow> 1
      | CL_ZERO \<Rightarrow> 0)"

definition Conv444to422Generic_new ::
  "(int \<Rightarrow> int \<Rightarrow> int \<Rightarrow> int \<Rightarrow> int \<Rightarrow> int \<Rightarrow> ScaleFilter) \<Rightarrow> int \<Rightarrow>
   int \<Rightarrow> int \<Rightarrow> int \<Rightarrow> (FieldPosition \<Rightarrow> ChromaLocation) \<Rightarrow> int \<Rightarrow> Conv444to422Generic" where
  "Conv444to422Generic_new newScaleFilter DF_F0 width height method chromaLocationType useMinMax =
     (let hPhase = hPhase_of chromaLocationType
      in \<lparr>m_horFilter = newScaleFilter method 0 2 0 0 hPhase,
          m_horFilterM = (if useMinMax \<noteq> 0 then Some (newScaleFilter DF_F0 0 2 0 0 hPhase)
                          else None),
          m_useMinMax = useMinMax\<rparr>)"

subsection \<open>Per-sample filtering, floating point\<close>

text \<open>
  A pointer argument \<open>inp\<close> is the list of the samples from the pointer onwards.
  \<open>curPixel\<close> is the expression \<open>inp[iClip(pos_x + i - filter->m_positionOffset, 0, width)]\<close>
  that every tap loop evaluates; \<open>width\<close> is the last valid column.
\<close>

definition curPixel :: "'a list \<Rightarrow> ScaleFilter \<Rightarrow> int \<Rightarrow> int \<Rightarrow> nat \<Rightarrow> 'a" where
  "curPixel inp filt pos_x width i =
     inp ! nat (iClip (pos_x + int i - m_positionOffset filt) 0 width)"

text \<open>The tap loop that only accumulates \<open>value\<close>.\<close>

definition sumLoop :: "real list \<Rightarrow> ScaleFilter \<Rightarrow> int \<Rightarrow> int \<Rightarrow> real" where
  "sumLoop inp filt pos_x width =
     fold (\<lambda>i value. value + m_floatFilter filt ! i * curPixel inp filt pos_x width i)
       [0..<nat (m_numberOfTaps filt)] 0"

text \<open>
  The tap loop that accumulates \<open>value\<close> and tracks \<open>dMin\<close> and \<open>dMax\<close>, which start at
  \<open>1e20\<close> and \<open>-1e20\<close>.
\<close>

definition sumMinMaxLoop :: "real list \<Rightarrow> ScaleFilter \<Rightarrow> int \<Rightarrow> int \<Rightarrow> real \<times> real \<times> real" where
  "sumMinMaxLoop inp filt pos_x width =
     fold (\<lambda>i (value, dMin, dMax).
             let dCurPixel = curPixel inp filt pos_x width i
             in (value + m_floatFilter filt ! i * dCurPixel,
                 if dMin > dCurPixel then dCurPixel else dMin,
                 if dMax < dCurPixel then dCurPixel else dMax))
       [0..<nat (m_numberOfTaps filt)] (0, 10 ^ 20, - (10 ^ 20))"

text \<open>The tap loop that only tracks \<open>dMin\<close> and \<open>dMax\<close>.\<close>

definition minMaxLoop :: "real list \<Rightarrow> ScaleFilter \<Rightarrow> int \<Rightarrow> int \<Rightarrow> real \<times> real" where
  "minMaxLoop inp filt pos_x width =
     fold (\<lambda>i (dMin, dMax).
             let dCurPixel = curPixel inp filt pos_x width i
             in (if dMin > dCurPixel then dCurPixel else dMin,
                 if dMax < dCurPixel then dCurPixel else dMax))
       [0..<nat (m_numberOfTaps filt)] (10 ^ 20, - (10 ^ 20))"

text \<open>The closing statement of the three overshoot routines.\<close>

definition clipResult :: "ScaleFilter \<Rightarrow> real \<Rightarrow> real \<Rightarrow> real \<Rightarrow> real" where
  "clipResult filt dScaledValue minValue maxValue =
     (if m_clip filt then fClip dScaledValue minValue maxValue else dScaledValue)"

text \<open>
  The three overshoot routines read \<open>m_horFilterM\<close> of the object. Dereferencing a
  \<open>NULL\<close> pointer is the result \<open>None\<close>.
\<close>

definition filterHorizontalMinMax ::
  "Conv444to422Generic \<Rightarrow> real list \<Rightarrow> ScaleFilter \<Rightarrow> int \<Rightarrow> int \<Rightarrow> real \<Rightarrow> real \<Rightarrow> real option" where
  "filterHorizontalMinMax this inp filt pos_x width minValue maxValue =
     (case sumMinMaxLoop inp filt pos_x width of (value, dMin, dMax) \<Rightarrow>
        let dScaledValue = (value + m_floatOffset filt) * m_floatScale filt
        in if dScaledValue > dMax \<or> dScaledValue < dMin then
             (case m_horFilterM this of
                None \<Rightarrow> None
              | Some horFilterM \<Rightarrow>
                  let value = sumLoop inp horFilterM pos_x width;
                      dScaledValue = (value + m_floatOffset horFilterM) * m_floatScale horFilterM
                  in Some (clipResult filt dScaledValue minValue maxValue))
           else Some (clipResult filt dScaledValue minValue maxValue))"

definition filterHorizontalMinMax2 ::
  "Conv444to422Generic \<Rightarrow> real list \<Rightarrow> ScaleFilter \<Rightarrow> int \<Rightarrow> int \<Rightarrow> real \<Rightarrow> real \<Rightarrow> real option" where
  "filterHorizontalMinMax2 this inp filt pos_x width minValue maxValue =
     (let value = sumLoop inp filt pos_x width;
          dScaledValue = (value + m_floatOffset filt) * m_floatScale filt
      in case m_horFilterM this of
           None \<Rightarrow> None
         | Some horFilterM \<Rightarrow>
             (case sumMinMaxLoop inp horFilterM pos_x width of (value, dMin, dMax) \<Rightarrow>
                let dScaledValue =
                      (if dScaledValue > dMax \<or> dScaledValue < dMin
                       then (value + m_floatOffset horFilterM) * m_floatScale horFilterM
                       else dScaledValue)
                in Some (clipResult filt dScaledValue minValue maxValue)))"

definition filterHorizontalMinMax3 ::
  "Conv444to422Generic \<Rightarrow> real list \<Rightarrow> ScaleFilter \<Rightarrow> int \<Rightarrow> int \<Rightarrow> real \<Rightarrow> real \<Rightarrow> real option" where
  "filterHorizontalMinMax3 this inp filt pos_x width minValue maxValue =
     (let value = sumLoop inp filt pos_x width;
          dScaledValue = (value + m_floatOffset filt) * m_floatScale filt
      in case m_horFilterM this of
           None \<Rightarrow> None
         | Some horFilterM \<Rightarrow>
             (case minMaxLoop inp horFilterM pos_x width of (dMin, dMax) \<Rightarrow>
                let dScaledValue = (if dScaledValue > dMax then dMax else dScaledValue);
                    dScaledValue = (if dScaledValue < dMin then dMin else dScaledValue)
                in Some (clipResult filt dScaledValue minValue maxValue)))"

text \<open>
  The floating-point \<open>filterHorizontal\<close>: its clip bounds are the literals \<open>-0.5\<close> and
  \<open>0.5\<close>, and the parameters \<open>minValue\<close> and \<open>maxValue\<close> are not read.
\<close>

definition filterHorizontal_float ::
  "real list \<Rightarrow> ScaleFilter \<Rightarrow> int \<Rightarrow> int \<Rightarrow> real \<Rightarrow> real \<Rightarrow> real" where
  "filterHorizontal_float inp filt pos_x width minValue maxValue =
     (let value = sumLoop inp filt pos_x width
      in if m_clip filt
         then fClip ((value + m_floatOffset filt) * m_floatScale filt) (- (1 / 2)) (1 / 2)
         else (value + m_floatOffset filt) * m_floatScale filt)"

subsection \<open>Per-sample filtering, integers\<close>

text \<open>
  The overloads of \<open>filterHorizontal\<close> for \<open>uint16\<close> and \<open>imgpel\<close> have the same body
  and read unsigned samples; one definition, polymorphic in the width of the samples,
  stands for both. (The overload for \<open>int32\<close> is called by no \<open>filter\<close> overload.)
  The accumulator is a C \<open>int\<close>, modelled as an unbounded integer: the model describes
  the runs without signed overflow (which C++ leaves undefined). \<open>>>\<close> on a
  negative value is the arithmetic shift.
\<close>

definition filterHorizontal_int ::
  "'a::len word list \<Rightarrow> ScaleFilter \<Rightarrow> int \<Rightarrow> int \<Rightarrow> int \<Rightarrow> int \<Rightarrow> int" where
  "filterHorizontal_int inp filt pos_x width minValue maxValue =
     (let value = fold (\<lambda>i value. value + m_i32Filter filt ! i
                                      * uint (curPixel inp filt pos_x width i))
                    [0..<nat (m_numberOfTaps filt)] 0
      in if m_clip filt
         then iClip ((value + m_i32Offset filt) div 2 ^ nat (m_i32Shift filt)) minValue maxValue
         else (value + m_i32Offset filt) div 2 ^ nat (m_i32Shift filt))"

subsection \<open>Plane filtering\<close>

text \<open>
  The two nested loops of every \<open>filter\<close> overload: row \<open>j\<close>, column \<open>i\<close>, the sample
  function \<open>h\<close> applied to the pointer \<open>&inp[j * inp_width]\<close> and the position \<open>2 * i\<close>,
  the result stored at \<open>out[j * width + i]\<close>; \<open>filterRow\<close> is the inner loop. A run that
  dereferences \<open>NULL\<close> ends with \<open>None\<close>.
\<close>

definition filterRow ::
  "('a list \<Rightarrow> int \<Rightarrow> 'b option) \<Rightarrow> 'a list \<Rightarrow> int \<Rightarrow> nat \<Rightarrow> 'b list option \<Rightarrow> 'b list option" where
  "filterRow h inp width j =
     fold (\<lambda>i acc.
             case acc of
               None \<Rightarrow> None
             | Some out \<Rightarrow>
                 (case h (drop (nat (int j * (2 * width))) inp) (2 * int i) of
                    None \<Rightarrow> None
                  | Some v \<Rightarrow> Some (out[nat (int j * width + int i) := v])))
       [0..<nat width]"

definition filterLoop ::
  "('a list \<Rightarrow> int \<Rightarrow> 'b option) \<Rightarrow> 'b list \<Rightarrow> 'a list \<Rightarrow> int \<Rightarrow> int \<Rightarrow> 'b list option" where
  "filterLoop h out inp width height =
     fold (filterRow h inp width) [0..<nat height] (Some out)"

definition filter_float ::
  "Conv444to422Generic \<Rightarrow> real list \<Rightarrow> real list \<Rightarrow> int \<Rightarrow> int \<Rightarrow> real \<Rightarrow> real \<Rightarrow> real list option" where
  "filter_float this out inp width height minValue maxValue =
     (let inp_width = 2 * width;
          inputHeight = height
      in if m_useMinMax this = 1 then
           filterLoop (\<lambda>row pos_x. filterHorizontalMinMax this row (m_horFilter this) pos_x
                                     (inp_width - 1) minValue maxValue)
             out inp width inputHeight
         else if m_useMinMax this = 2 then
           filterLoop (\<lambda>row pos_x. filterHorizontalMinMax2 this row (m_horFilter this) pos_x
                                     (inp_width - 1) minValue maxValue)
             out inp width inputHeight
         else if m_useMinMax this = 3 then
           filterLoop (\<lambda>row pos_x. filterHorizontalMinMax3 this row (m_horFilter this) pos_x
                                     (inp_width - 1) minValue maxValue)
             out inp width inputHeight
         else
           filterLoop (\<lambda>row pos_x. Some (filterHorizontal_float row (m_horFilter this) pos_x
                                           (inp_width - 1) minValue maxValue))
             out inp width inputHeight)"

text \<open>
  The \<open>uint16\<close> and \<open>imgpel\<close> overloads of \<open>filter\<close>: the \<open>int\<close> returned by
  \<open>filterHorizontal\<close> is truncated to the width of the sample when it is stored.
\<close>

definition filter_int ::
  "Conv444to422Generic \<Rightarrow> 'a::len word list \<Rightarrow> 'a word list \<Rightarrow> int \<Rightarrow> int \<Rightarrow> int \<Rightarrow> int
   \<Rightarrow> 'a word list option" where
  "filter_int this out inp width height minValue maxValue =
     (let inp_width = 2 * width;
          inputHeight = height
      in filterLoop (\<lambda>row pos_x. Some (word_of_int (filterHorizontal_int row (m_horFilter this)
                                          pos_x (inp_width - 1) minValue maxValue)))
           out inp width inputHeight)"

subsection \<open>The frame-level entry point\<close>

text \<open>
  \<open>process\<close> either returns with the output frame written, or ends the program through
  \<open>exit\<close> after a line on \<open>stderr\<close>, or dereferences \<open>NULL\<close>. \<open>Exit\<close> carries the exit
  status, the text written to \<open>stderr\<close> and the output frame as it is at that moment.
\<close>

datatype process_result = Return Frame | Exit int string Frame | Fault

definition EXIT_FAILURE :: int where "EXIT_FAILURE = 1"

text \<open>The conversion \<open>%d\<close> of \<open>fprintf\<close>.\<close>

fun show_nat :: "nat \<Rightarrow> string" where
  "show_nat n =
     (if n < 10 then [''0123456789'' ! n]
      else show_nat (n div 10) @ [''0123456789'' ! (n mod 10)])"

definition show_int :: "int \<Rightarrow> string" where
  "show_int k = (if k < 0 then CHR ''-'' # show_nat (nat (- k)) else show_nat (nat k))"

definition msgDataTypes :: string where
  "msgDataTypes = ''Error: trying to copy frames of different data types. '' @ [CHR 0x0A]"

definition msgSizes :: "int \<Rightarrow> int \<Rightarrow> string" where
  "msgSizes a b =
     ''Error: trying to copy frames of different sizes ('' @ show_int a @ ''  vs ''
       @ show_int b @ ''). '' @ [CHR 0x0A]"

text \<open>
  \<open>memcpy\<close> of \<open>n\<close> samples from \<open>src\<close> to the start of \<open>dst\<close> (both planes hold at least
  \<open>n\<close> samples in a well-formed frame).
\<close>

definition memcpy_samples :: "'a list \<Rightarrow> 'a list \<Rightarrow> int \<Rightarrow> 'a list" where
  "memcpy_samples dst src n = take (nat n) src @ drop (nat n) dst"

text \<open>The body of the loop that copies the range metadata of component \<open>c\<close>.\<close>

definition copyPelValues :: "Frame \<Rightarrow> nat \<Rightarrow> Frame \<Rightarrow> Frame" where
  "copyPelValues inp c out =
     out\<lparr>m_minPelValue := (m_minPelValue out)(c := m_minPelValue inp c),
         m_midPelValue := (m_midPelValue out)(c := m_midPelValue inp c),
         m_maxPelValue := (m_maxPelValue out)(c := m_maxPelValue inp c)\<rparr>"

text \<open>The bodies of the three loops over the chroma components.\<close>

definition filterComp_float :: "Conv444to422Generic \<Rightarrow> Frame \<Rightarrow> nat \<Rightarrow> Frame option \<Rightarrow> Frame option" where
  "filterComp_float this inp c acc =
     (case acc of
        None \<Rightarrow> None
      | Some out \<Rightarrow>
          (case filter_float this (m_floatComp out c) (m_floatComp inp c) (m_width out c)
                  (m_height out c) (real_of_int (m_minPelValue out c))
                  (real_of_int (m_maxPelValue out c)) of
             None \<Rightarrow> None
           | Some plane \<Rightarrow> Some (out\<lparr>m_floatComp := (m_floatComp out)(c := plane)\<rparr>)))"

definition filterComp_imgpel :: "Conv444to422Generic \<Rightarrow> Frame \<Rightarrow> nat \<Rightarrow> Frame option \<Rightarrow> Frame option" where
  "filterComp_imgpel this inp c acc =
     (case acc of
        None \<Rightarrow> None
      | Some out \<Rightarrow>
          (case filter_int this (m_comp out c) (m_comp inp c) (m_width out c)
                  (m_height out c) (m_minPelValue out c) (m_maxPelValue out c) of
             None \<Rightarrow> None
           | Some plane \<Rightarrow> Some (out\<lparr>m_comp := (m_comp out)(c := plane)\<rparr>)))"

definition filterComp_ui16 :: "Conv444to422Generic \<Rightarrow> Frame \<Rightarrow> nat \<Rightarrow> Frame option \<Rightarrow> Frame option" where
  "filterComp_ui16 this inp c acc =
     (case acc of
        None \<Rightarrow> None
      | Some out \<Rightarrow>
          (case filter_int this (m_ui16Comp out c) (m_ui16Comp inp c) (m_width out c)
                  (m_height out c) (m_minPelValue out c) (m_maxPelValue out c) of
             None \<Rightarrow> None
           | Some plane \<Rightarrow> Some (out\<lparr>m_ui16Comp := (m_ui16Comp out)(c := plane)\<rparr>)))"

definition process :: "Conv444to422Generic \<Rightarrow> Frame \<Rightarrow> Frame \<Rightarrow> process_result" where
  "process this out inp =
     (if m_isFloat out \<noteq> m_isFloat inp
         \<or> (\<not> m_isFloat inp \<and> m_bitDepth out \<noteq> m_bitDepth inp) then
        Exit EXIT_FAILURE msgDataTypes out
      else if m_compSize out Y_COMP \<noteq> m_compSize inp Y_COMP then
        Exit EXIT_FAILURE (msgSizes (m_compSize out Y_COMP) (m_compSize inp Y_COMP)) out
      else
        let out = out\<lparr>m_frameNo := m_frameNo inp\<rparr>;
            out = out\<lparr>m_isAvailable := True\<rparr>;
            out = fold (copyPelValues inp) [Y_COMP..<Suc V_COMP] out;
            res =
              (if m_isFloat out then
                 let out = out\<lparr>m_floatComp := (m_floatComp out)
                             (Y_COMP := memcpy_samples (m_floatComp out Y_COMP)
                                          (m_floatComp inp Y_COMP) (m_compSize out Y_COMP))\<rparr>
                 in fold (filterComp_float this inp) [U_COMP..<Suc V_COMP] (Some out)
               else if m_bitDepth out = 8 then
                 let out = out\<lparr>m_comp := (m_comp out)
                             (Y_COMP := memcpy_samples (m_comp out Y_COMP)
                                          (m_comp inp Y_COMP) (m_compSize out Y_COMP))\<rparr>
                 in fold (filterComp_imgpel this inp) [U_COMP..<Suc V_COMP] (Some out)
               else
                 let out = out\<lparr>m_ui16Comp := (m_ui16Comp out)
                             (Y_COMP := memcpy_samples (m_ui16Comp out Y_COMP)
                                          (m_ui16Comp inp Y_COMP) (m_compSize out Y_COMP))\<rparr>
                 in fold (filterComp_ui16 this inp) [U_COMP..<Suc V_COMP] (Some out))
        in case res of None \<Rightarrow> Fault | Some out \<Rightarrow> Return out)"

section \<open>Notions of the specification\<close>

text \<open>
  The specification speaks of the scaled result of a filter at a sample position and of
  the local minimum and maximum of the samples under its taps. \<open>scaledValue\<close> is the
  expression \<open>(value + m_floatOffset) * m_floatScale\<close> of the source after the tap loop;
  \<open>localMin\<close> and \<open>localMax\<close> follow the words of the specification: the least and the
  greatest of the samples that the taps of the filter read at that position.
\<close>

definition scaledValue :: "real list \<Rightarrow> ScaleFilter \<Rightarrow> int \<Rightarrow> int \<Rightarrow> real" where
  "scaledValue inp filt pos_x width =
     (sumLoop inp filt pos_x width + m_floatOffset filt) * m_floatScale filt"

definition tapSamples :: "real list \<Rightarrow> ScaleFilter \<Rightarrow> int \<Rightarrow> int \<Rightarrow> real list" where
  "tapSamples inp filt pos_x width =
     map (curPixel inp filt pos_x width) [0..<nat (m_numberOfTaps filt)]"

definition localMin :: "real list \<Rightarrow> ScaleFilter \<Rightarrow> int \<Rightarrow> int \<Rightarrow> real" where
  "localMin inp filt pos_x width = Min (set (tapSamples inp filt pos_x width))"

definition localMax :: "real list \<Rightarrow> ScaleFilter \<Rightarrow> int \<Rightarrow> int \<Rightarrow> real" where
  "localMax inp filt pos_x width = Max (set (tapSamples inp filt pos_x width))"


text \<open>
  Whether control returns to the caller of \<open>process\<close> (as opposed to the end of the
  program).
\<close>

definition returnsToCaller :: "process_result \<Rightarrow> bool" where
  "returnsToCaller r = (case r of Return out \<Rightarrow> True | Exit status err out \<Rightarrow> False | Fault \<Rightarrow> False)"

section \<open>Example data\<close>

text \<open>
  A filter table with the given floating-point taps, anchored at its first tap, with
  offset \<open>0\<close> and scale \<open>1\<close>; a converter with a given policy selector and tables; a
  4:4:4 input frame of two columns and one row, and a blank 4:2:2 output frame for it; a
  stand-in for the constructor of \<open>ScaleFilter\<close> that records the method and the phase in
  its taps. They are the concrete inputs of the examples below.
\<close>

definition exFilter :: "real list \<Rightarrow> bool \<Rightarrow> ScaleFilter" where
  "exFilter taps clip =
     \<lparr>m_numberOfTaps = int (length taps), m_positionOffset = 0, m_floatFilter = taps,
      m_floatOffset = 0, m_floatScale = 1, m_i32Filter = [], m_i32Offset = 0, m_i32Shift = 0,
      m_clip = clip\<rparr>"

definition exConv :: "int \<Rightarrow> ScaleFilter \<Rightarrow> ScaleFilter option \<Rightarrow> Conv444to422Generic" where
  "exConv useMinMax horFilter horFilterM =
     \<lparr>m_horFilter = horFilter, m_horFilterM = horFilterM, m_useMinMax = useMinMax\<rparr>"

definition exInput :: "bool \<Rightarrow> int \<Rightarrow> int \<Rightarrow> bool \<Rightarrow> Frame" where
  "exInput isFloat bitDepth frameNo isAvailable =
     \<lparr>m_isFloat = isFloat, m_bitDepth = bitDepth, m_frameNo = frameNo,
      m_isAvailable = isAvailable, m_width = (\<lambda>c. 2), m_height = (\<lambda>c. 1),
      m_compSize = (\<lambda>c. 2), m_minPelValue = (\<lambda>c. 16),
      m_midPelValue = (\<lambda>c. 128), m_maxPelValue = (\<lambda>c. 235),
      m_floatComp = (\<lambda>c. [1 / 4, 1 / 2]), m_comp = (\<lambda>c. [10, 20]),
      m_ui16Comp = (\<lambda>c. [10, 20])\<rparr>"

definition exOutput :: "bool \<Rightarrow> int \<Rightarrow> Frame" where
  "exOutput isFloat bitDepth =
     \<lparr>m_isFloat = isFloat, m_bitDepth = bitDepth, m_frameNo = 0,
      m_isAvailable = False, m_width = (\<lambda>c. if c = 0 then 2 else 1), m_height = (\<lambda>c. 1),
      m_compSize = (\<lambda>c. if c = 0 then 2 else 1), m_minPelValue = (\<lambda>c. 0),
      m_midPelValue = (\<lambda>c. 0), m_maxPelValue = (\<lambda>c. 0),
      m_floatComp = (\<lambda>c. if c = 0 then [0, 0] else [0]),
      m_comp = (\<lambda>c. if c = 0 then [0, 0] else [0]),
      m_ui16Comp = (\<lambda>c. if c = 0 then [0, 0] else [0])\<rparr>"

definition exNewScaleFilter :: "int \<Rightarrow> int \<Rightarrow> int \<Rightarrow> int \<Rightarrow> int \<Rightarrow> int \<Rightarrow> ScaleFilter" where
  "exNewScaleFilter method a b c d hPhase = exFilter [real_of_int method, real_of_int hPhase] False"

section \<open>Transfer function: constants and piecewise law\<close>

lemma ST240_new_fields:
  "TransferFunctionST240_new this0 =
     \<lparr>m_inverseGamma = 45 / 100, m_gamma = 100 / 45, m_alpha = 1115 / 10000,
      m_beta = 228 / 10000, m_invBeta = 912 / 10000\<rparr>"
  by (cases this0) (simp add: TransferFunctionST240_new_def inverse_tf_def Let_def)

text \<open>
  Claim C5. The object built by the constructor has \<open>inverseGamma = 0.45\<close>,
  \<open>gamma = 1 / inverseGamma\<close>, \<open>alpha = 0.1115\<close>, \<open>beta = 0.0228\<close> and
  \<open>invBeta = inverse(beta)\<close>; for every real \<open>v\<close>, \<open>forward v\<close> is \<open>v / 4\<close> when
  \<open>v \<le> invBeta\<close> and \<open>max ((v + alpha) / (1 + alpha), 0) ^ gamma\<close> otherwise, and
  \<open>inverse v\<close> is \<open>4 * v\<close> when \<open>v \<le> beta\<close> and \<open>(1 + alpha) * v ^ inverseGamma - alpha\<close>
  otherwise.
\<close>

theorem C5_ST240_piecewise_law:
  "m_inverseGamma (TransferFunctionST240_new this0) = 45 / 100
   \<and> m_gamma (TransferFunctionST240_new this0)
        = 1 / m_inverseGamma (TransferFunctionST240_new this0)
   \<and> m_alpha (TransferFunctionST240_new this0) = 1115 / 10000
   \<and> m_beta (TransferFunctionST240_new this0) = 228 / 10000
   \<and> m_invBeta (TransferFunctionST240_new this0)
        = inverse_tf (TransferFunctionST240_new this0) (m_beta (TransferFunctionST240_new this0))
   \<and> forward (TransferFunctionST240_new this0) v =
         (if v \<le> m_invBeta (TransferFunctionST240_new this0) then v / 4
          else (max ((v + 1115 / 10000) / (1 + 1115 / 10000)) 0) powr (1 / (45 / 100)))
   \<and> inverse_tf (TransferFunctionST240_new this0) v =
         (if v \<le> 228 / 10000 then 4 * v
          else (1 + 1115 / 10000) * v powr (45 / 100) - 1115 / 10000)"
  unfolding ST240_new_fields
  by (simp add: forward_def inverse_tf_def dMax_fun_def max_def)

section \<open>Transfer function: round trip\<close>

text \<open>
  The exponent of the power segment is \<open>1 / 0.45 = 20 / 9\<close>, so a bound on such a power
  is a comparison of a twentieth with a ninth power of rationals.
\<close>

lemma powr_20_9_lower:
  fixes c x :: real
  assumes "0 < c" "0 < x" "c ^ 9 \<le> x ^ 20"
  shows "c \<le> x powr (20 / 9)"
proof -
  have "(c ^ 9) powr (1 / 9) \<le> (x ^ 20) powr (1 / 9)"
    using assms by (intro powr_mono2) auto
  moreover have "(c ^ 9) powr (1 / 9) = c"
    using assms by (simp add: powr_powr flip: powr_numeral)
  moreover have "(x ^ 20) powr (1 / 9) = x powr (20 / 9)"
    using assms by (simp add: powr_powr flip: powr_numeral)
  ultimately show ?thesis by simp
qed

lemma powr_20_9_upper:
  fixes c x :: real
  assumes "0 < c" "0 < x" "x ^ 20 \<le> c ^ 9"
  shows "x powr (20 / 9) \<le> c"
proof -
  have "(x ^ 20) powr (1 / 9) \<le> (c ^ 9) powr (1 / 9)"
    using assms by (intro powr_mono2) auto
  moreover have "(c ^ 9) powr (1 / 9) = c"
    using assms by (simp add: powr_powr flip: powr_numeral)
  moreover have "(x ^ 20) powr (1 / 9) = x powr (20 / 9)"
    using assms by (simp add: powr_powr flip: powr_numeral)
  ultimately show ?thesis by simp
qed

lemma powr_9_20_upper:
  fixes r y :: real
  assumes "0 < r" "0 < y" "y ^ 9 \<le> r ^ 20"
  shows "y powr (9 / 20) \<le> r"
proof -
  have "(y ^ 9) powr (1 / 20) \<le> (r ^ 20) powr (1 / 20)"
    using assms by (intro powr_mono2) auto
  moreover have "(r ^ 20) powr (1 / 20) = r"
    using assms by (simp add: powr_powr flip: powr_numeral)
  moreover have "(y ^ 9) powr (1 / 20) = y powr (9 / 20)"
    using assms by (simp add: powr_powr flip: powr_numeral)
  ultimately show ?thesis by simp
qed

text \<open>
  Between \<open>invBeta = 0.0912\<close> and the point where the power segment of \<open>forward\<close> reaches
  \<open>beta\<close>, \<open>forward\<close> takes the power segment and \<open>inverse\<close> the linear one: there the two
  segments do not meet, and the round trip is off by about \<open>6e-5\<close>.
\<close>

lemma powr_tangent_lower:
  fixes t r :: real
  assumes "0 < t"
  shows "1 + r * ln t \<le> t powr r"
proof -
  have "1 + r * ln t \<le> exp (r * ln t)" by (rule exp_ge_add_one_self)
  then show ?thesis using assms by (simp add: powr_def)
qed

lemma ln_lower:
  fixes t :: real
  assumes "0 < t"
  shows "1 - 1 / t \<le> ln t"
proof -
  have "ln (1 / t) \<le> 1 / t - 1" using assms by (intro ln_le_minus_one) simp
  then show ?thesis using assms by (simp add: ln_div)
qed

lemma ST240_gap_bound_tight:
  fixes v :: real
  assumes v: "912 / 10000 < v"
    and y: "((v + 1115 / 10000) / (11115 / 10000)) powr (20 / 9) \<le> 228 / 10000"
  shows "\<bar>4 * ((v + 1115 / 10000) / (11115 / 10000)) powr (20 / 9) - v\<bar> \<le> 6 / 10 ^ 5"
proof -
  define x where "x = (v + 1115 / 10000) / (11115 / 10000)"
  define y where "y = x powr (20 / 9)"
  define d where "d = v - 912 / 10000"
  define t where "t = (2027 / 10000 + d) / (2027 / 10000)"
  have dpos: "0 < d" using v by (simp add: d_def)
  have xpos: "0 < x" using v by (simp add: x_def)
  have tpos: "0 < t" using dpos by (simp add: t_def)
  have yb: "y \<le> 228 / 10000" using y by (simp add: y_def x_def)
  have vx: "v = 11115 / 10000 * x - 1115 / 10000" by (simp add: x_def field_simps)
  have "x = y powr (9 / 20)"
    using xpos by (simp add: y_def powr_powr)
  also have "\<dots> \<le> (228 / 10000) powr (9 / 20)"
    using yb by (intro powr_mono2) (simp_all add: y_def)
  also have "\<dots> \<le> 18242 / 100000"
    by (rule powr_9_20_upper) (simp_all add: divide_simps)
  finally have xr: "x \<le> 18242 / 100000" .
  have dmax: "d \<le> 6 / 10 ^ 5"
    using xr by (simp add: vx d_def)
  have xt: "x = (2027 / 11115) * t"
    by (simp add: x_def t_def d_def field_simps)
  have "y = ((2027 / 11115) * t) powr (20 / 9)" by (simp only: y_def xt)
  also have "\<dots> = (2027 / 11115) powr (20 / 9) * t powr (20 / 9)"
    by (rule powr_mult)
  finally have yprod: "y = (2027 / 11115) powr (20 / 9) * t powr (20 / 9)" .
  have c0: "(2278525 / 10 ^ 8 :: real) \<le> (2027 / 11115) powr (20 / 9)"
    by (rule powr_20_9_lower) (simp_all add: divide_simps)
  have tl: "1 + 20 / 9 * (1 - 1 / t) \<le> t powr (20 / 9)"
  proof -
    have "1 + 20 / 9 * (1 - 1 / t) \<le> 1 + 20 / 9 * ln t"
      using ln_lower [OF tpos] by simp
    also have "\<dots> \<le> t powr (20 / 9)" using tpos by (rule powr_tangent_lower)
    finally show ?thesis .
  qed
  have t1: "0 \<le> 1 + 20 / 9 * (1 - 1 / t)"
    using dpos by (simp add: t_def field_simps)
  have "2278525 / 10 ^ 8 * (1 + 20 / 9 * (1 - 1 / t))
          \<le> (2027 / 11115) powr (20 / 9) * t powr (20 / 9)"
    by (rule mult_mono [OF c0 tl _ t1]) simp
  then have ylow: "2278525 / 10 ^ 8 * (1 + 20 / 9 * (1 - 1 / t)) \<le> y"
    by (simp only: yprod)
  define k where "k = 1 - 1 / t"
  define e where "e = d / (20276 / 100000)"
  have "k = d / (2027 / 10000 + d)"
    using dpos by (simp add: k_def t_def field_simps)
  moreover have "d / (2027 / 10000 + 6 / 10 ^ 5) \<le> d / (2027 / 10000 + d)"
    using dpos dmax by (intro divide_left_mono) simp_all
  ultimately have ek: "e \<le> k" by (simp add: e_def)
  have ylow': "2278525 / 100000000 * (1 + 20 / 9 * k) \<le> y"
    using ylow by (simp add: k_def)
  have "2278525 / 100000000 * (1 + 20 / 9 * e) \<le> 2278525 / 100000000 * (1 + 20 / 9 * k)"
    using ek by (intro mult_left_mono add_left_mono) simp_all
  then have "2278525 / 100000000 * (1 + 20 / 9 * e) \<le> y" using ylow' by (rule order_trans)
  then have ye: "2278525 / 100000000 + 91141 / 1800000 * e \<le> y"
    by (simp add: algebra_simps)
  have de: "d = 20276 / 100000 * e"
    by (simp add: e_def)
  have e0: "0 \<le> e" using dpos by (simp add: e_def)
  have emax: "20276 / 100000 * e \<le> 6 / 100000"
    using dmax by (simp add: de)
  have ve: "v = 912 / 10000 + 20276 / 100000 * e" using de by (simp add: d_def)
  have "v - 6 / 100000 \<le> 4 * y"
    using ve ye e0 emax by linarith
  then have lower: "v - 6 / 10 ^ 5 \<le> 4 * y" by simp
  have "4 * y \<le> v" using yb v by simp
  with lower have "\<bar>4 * y - v\<bar> \<le> 6 / 10 ^ 5" by simp
  then show ?thesis by (simp add: y_def x_def)
qed

lemma ST240_roundtrip_exact:
  fixes v :: real
  assumes "v \<le> m_invBeta (TransferFunctionST240_new this0)
           \<or> m_beta (TransferFunctionST240_new this0) < forward (TransferFunctionST240_new this0) v"
  shows "inverse_tf (TransferFunctionST240_new this0) (forward (TransferFunctionST240_new this0) v) = v"
proof (cases "v \<le> 912 / 10000")
  case True
  then show ?thesis
    unfolding ST240_new_fields by (simp add: forward_def inverse_tf_def)
next
  case False
  define x where "x = (v + 1115 / 10000) / (11115 / 10000)"
  have xpos: "0 < x" using False by (simp add: x_def)
  have fw: "forward (TransferFunctionST240_new this0) v = x powr (20 / 9)"
    unfolding ST240_new_fields using False xpos
    by (simp add: forward_def dMax_fun_def x_def)
  have gt: "\<not> x powr (20 / 9) \<le> 228 / 10000"
    using assms False unfolding fw unfolding ST240_new_fields by simp
  have "(x powr (20 / 9)) powr (45 / 100) = x"
    using xpos by (simp add: powr_powr)
  then have "inverse_tf (TransferFunctionST240_new this0) (x powr (20 / 9)) = v"
    unfolding ST240_new_fields using gt by (simp add: inverse_tf_def x_def)
  then show ?thesis by (simp add: fw)
qed

lemma ST240_forward_above_beta:
  fixes v :: real
  assumes "9126 / 100000 \<le> v"
  shows "m_beta (TransferFunctionST240_new this0) < forward (TransferFunctionST240_new this0) v"
proof -
  define x where "x = (v + 1115 / 10000) / (11115 / 10000)"
  have xpos: "0 < x" using assms by (simp add: x_def)
  have fw: "forward (TransferFunctionST240_new this0) v = x powr (20 / 9)"
    unfolding ST240_new_fields using assms xpos
    by (simp add: forward_def dMax_fun_def x_def)
  have "(228002 / 10 ^ 7 :: real)
          \<le> ((9126 / 100000 + 1115 / 10000) / (11115 / 10000)) powr (20 / 9)"
    by (rule powr_20_9_lower) (simp_all add: divide_simps)
  also have "\<dots> \<le> x powr (20 / 9)"
    using assms by (intro powr_mono2) (simp_all add: x_def divide_simps)
  finally have "228002 / 10 ^ 7 \<le> x powr (20 / 9)" .
  then show ?thesis unfolding fw unfolding ST240_new_fields by simp
qed

lemma ST240_roundtrip_gap:
  fixes v :: real
  assumes "912 / 10000 < v"
  shows "\<bar>inverse_tf (TransferFunctionST240_new this0)
            (forward (TransferFunctionST240_new this0) v) - v\<bar> \<le> 6 / 10 ^ 5"
proof -
  define x where "x = (v + 1115 / 10000) / (11115 / 10000)"
  have xpos: "0 < x" using assms by (simp add: x_def)
  have fw: "forward (TransferFunctionST240_new this0) v = x powr (20 / 9)"
    unfolding ST240_new_fields using assms xpos
    by (simp add: forward_def dMax_fun_def x_def)
  show ?thesis
  proof (cases "x powr (20 / 9) \<le> 228 / 10000")
    case True
    have "inverse_tf (TransferFunctionST240_new this0) (x powr (20 / 9)) = 4 * x powr (20 / 9)"
      unfolding ST240_new_fields using True by (simp add: inverse_tf_def)
    moreover have "\<bar>4 * x powr (20 / 9) - v\<bar> \<le> 6 / 10 ^ 5"
      using ST240_gap_bound_tight [of v] assms True by (simp add: x_def)
    ultimately show ?thesis by (simp add: fw)
  next
    case False
    then have "m_beta (TransferFunctionST240_new this0) < forward (TransferFunctionST240_new this0) v"
      unfolding fw unfolding ST240_new_fields by simp
    then have "inverse_tf (TransferFunctionST240_new this0)
                 (forward (TransferFunctionST240_new this0) v) = v"
      by (intro ST240_roundtrip_exact) simp
    then show ?thesis by simp
  qed
qed

text \<open>
  Claim C6, as stated, fails: for \<open>v = 0.09121\<close>, which lies in \<open>[0, 1]\<close>, the round trip
  \<open>inverse (forward v)\<close> differs from \<open>v\<close> by more than \<open>1e-6\<close>.
\<close>

theorem C6_roundtrip_1e6_counterexample:
  "(0::real) \<le> 9121 / 100000 \<and> (9121 / 100000 :: real) \<le> 1
   \<and> \<not> \<bar>inverse_tf
          (TransferFunctionST240_new
             \<lparr>m_inverseGamma = 0, m_gamma = 0, m_alpha = 0, m_beta = 0, m_invBeta = 0\<rparr>)
          (forward
             (TransferFunctionST240_new
                \<lparr>m_inverseGamma = 0, m_gamma = 0, m_alpha = 0, m_beta = 0, m_invBeta = 0\<rparr>)
             (9121 / 100000))
        - 9121 / 100000\<bar> \<le> 1 / 10 ^ 6"
proof -
  let ?x = "((9121 / 100000 + 1115 / 10000) / (1 + 1115 / 10000)) :: real"
  have "?x powr (20 / 9) \<le> 228 / 10000"
    by (rule powr_20_9_upper) (simp_all add: divide_simps)
  then show ?thesis
    unfolding ST240_new_fields
    by (simp add: forward_def inverse_tf_def dMax_fun_def)
qed

text \<open>
  Claim C6, amended: for every \<open>v\<close> in \<open>[0, 1]\<close> with \<open>v \<le> 0.0912\<close> (that is
  \<open>v \<le> invBeta\<close>) or \<open>v \<ge> 0.09126\<close>, \<open>inverse (forward v)\<close> equals \<open>v\<close> within \<open>1e-6\<close>
  (exactly, in real arithmetic); for \<open>v\<close> strictly between \<open>0.0912\<close> and \<open>0.09126\<close> it
  equals \<open>v\<close> within \<open>6e-5\<close>. The round trip is exact wherever \<open>v \<le> invBeta\<close> or
  \<open>forward v\<close> exceeds \<open>beta\<close>.
\<close>

theorem C6_roundtrip_exact_outside_gap:
  fixes v :: real
  assumes "0 \<le> v" and "v \<le> 1"
  shows "(v \<le> 912 / 10000 \<or> 9126 / 100000 \<le> v \<longrightarrow>
            inverse_tf (TransferFunctionST240_new this0)
              (forward (TransferFunctionST240_new this0) v) = v
            \<and> \<bar>inverse_tf (TransferFunctionST240_new this0)
                 (forward (TransferFunctionST240_new this0) v) - v\<bar> \<le> 1 / 10 ^ 6)
       \<and> (912 / 10000 < v \<and> v < 9126 / 100000 \<longrightarrow>
            \<bar>inverse_tf (TransferFunctionST240_new this0)
                (forward (TransferFunctionST240_new this0) v) - v\<bar> \<le> 6 / 10 ^ 5)
       \<and> (v \<le> m_invBeta (TransferFunctionST240_new this0)
            \<or> m_beta (TransferFunctionST240_new this0)
                 < forward (TransferFunctionST240_new this0) v \<longrightarrow>
            inverse_tf (TransferFunctionST240_new this0)
              (forward (TransferFunctionST240_new this0) v) = v)"
proof (intro conjI impI)
  assume a: "v \<le> 912 / 10000 \<or> 9126 / 100000 \<le> v"
  have "v \<le> m_invBeta (TransferFunctionST240_new this0)
           \<or> m_beta (TransferFunctionST240_new this0) < forward (TransferFunctionST240_new this0) v"
  proof (cases "v \<le> 912 / 10000")
    case True
    then show ?thesis unfolding ST240_new_fields by simp
  next
    case False
    with a have "9126 / 100000 \<le> v" by simp
    then show ?thesis by (simp add: ST240_forward_above_beta)
  qed
  then show e: "inverse_tf (TransferFunctionST240_new this0)
              (forward (TransferFunctionST240_new this0) v) = v"
    by (rule ST240_roundtrip_exact)
  show "\<bar>inverse_tf (TransferFunctionST240_new this0)
                 (forward (TransferFunctionST240_new this0) v) - v\<bar> \<le> 1 / 10 ^ 6"
    by (simp add: e)
next
  assume "912 / 10000 < v \<and> v < 9126 / 100000"
  then show "\<bar>inverse_tf (TransferFunctionST240_new this0)
                (forward (TransferFunctionST240_new this0) v) - v\<bar> \<le> 6 / 10 ^ 5"
    by (intro ST240_roundtrip_gap) simp
next
  assume "v \<le> m_invBeta (TransferFunctionST240_new this0)
            \<or> m_beta (TransferFunctionST240_new this0)
                 < forward (TransferFunctionST240_new this0) v"
  then show "inverse_tf (TransferFunctionST240_new this0)
              (forward (TransferFunctionST240_new this0) v) = v"
    by (rule ST240_roundtrip_exact)
qed

theorem C6_roundtrip_exact_outside_gap_witness:
  "(0::real) \<le> 1 / 20 \<and> (1 / 20 :: real) \<le> 1 \<and> (1 / 20 :: real) \<le> 912 / 10000
   \<and> inverse_tf
        (TransferFunctionST240_new
           \<lparr>m_inverseGamma = 0, m_gamma = 0, m_alpha = 0, m_beta = 0, m_invBeta = 0\<rparr>)
        (forward
           (TransferFunctionST240_new
              \<lparr>m_inverseGamma = 0, m_gamma = 0, m_alpha = 0, m_beta = 0, m_invBeta = 0\<rparr>)
           (1 / 20)) = 1 / 20
   \<and> (0::real) \<le> 1 / 2 \<and> (1 / 2 :: real) \<le> 1 \<and> (9126 / 100000 :: real) \<le> 1 / 2
   \<and> inverse_tf
        (TransferFunctionST240_new
           \<lparr>m_inverseGamma = 0, m_gamma = 0, m_alpha = 0, m_beta = 0, m_invBeta = 0\<rparr>)
        (forward
           (TransferFunctionST240_new
              \<lparr>m_inverseGamma = 0, m_gamma = 0, m_alpha = 0, m_beta = 0, m_invBeta = 0\<rparr>)
           (1 / 2)) = 1 / 2
   \<and> (0::real) \<le> 9121 / 100000 \<and> (9121 / 100000 :: real) \<le> 1
   \<and> (912 / 10000 :: real) < 9121 / 100000 \<and> (9121 / 100000 :: real) < 9126 / 100000
   \<and> \<bar>inverse_tf
        (TransferFunctionST240_new
           \<lparr>m_inverseGamma = 0, m_gamma = 0, m_alpha = 0, m_beta = 0, m_invBeta = 0\<rparr>)
        (forward
           (TransferFunctionST240_new
              \<lparr>m_inverseGamma = 0, m_gamma = 0, m_alpha = 0, m_beta = 0, m_invBeta = 0\<rparr>)
           (9121 / 100000))
      - 9121 / 100000\<bar> \<le> 6 / 10 ^ 5"
proof -
  have a0: "(0::real) \<le> 1 / 20" and a1: "(1 / 20 :: real) \<le> 1"
    and b0: "(0::real) \<le> 1 / 2" and b1: "(1 / 2 :: real) \<le> 1"
    and c0: "(0::real) \<le> 9121 / 100000" and c1: "(9121 / 100000 :: real) \<le> 1"
    by simp_all
  show ?thesis
    using C6_roundtrip_exact_outside_gap [OF a0 a1]
      C6_roundtrip_exact_outside_gap [OF b0 b1]
      C6_roundtrip_exact_outside_gap [OF c0 c1]
    by simp
qed

section \<open>The tap loops\<close>

text \<open>
  What the three tap loops compute: the sum of tap times sample, and the least and the
  greatest of the samples together with the starting values \<open>1e20\<close> and \<open>-1e20\<close>.
\<close>

lemma fold_sum_upt:
  fixes g :: "nat \<Rightarrow> real"
  shows "fold (\<lambda>i value. value + g i) [0..<n] a = a + (\<Sum>i<n. g i)"
  by (induction n) simp_all

lemma Min_insert_image_Suc:
  fixes s :: "nat \<Rightarrow> real"
  shows "Min (insert b (s ` {..<Suc n})) = min (s n) (Min (insert b (s ` {..<n})))"
proof -
  have "insert b (s ` {..<Suc n}) = insert (s n) (insert b (s ` {..<n}))"
    by (auto simp: lessThan_Suc)
  then show ?thesis by (simp del: image_insert)
qed

lemma Max_insert_image_Suc:
  fixes s :: "nat \<Rightarrow> real"
  shows "Max (insert c (s ` {..<Suc n})) = max (s n) (Max (insert c (s ` {..<n})))"
proof -
  have "insert c (s ` {..<Suc n}) = insert (s n) (insert c (s ` {..<n}))"
    by (auto simp: lessThan_Suc)
  then show ?thesis by (simp del: image_insert)
qed

lemma fold_minmax_upt:
  fixes s :: "nat \<Rightarrow> real"
  defines "F \<equiv> (\<lambda>i (dMin, dMax). let dCurPixel = s i
                                   in (if dMin > dCurPixel then dCurPixel else dMin,
                                       if dMax < dCurPixel then dCurPixel else dMax))"
  shows "fold F [0..<n] (b, c)
         = (Min (insert b (s ` {..<n})), Max (insert c (s ` {..<n})))"
proof (induction n)
  case 0
  then show ?case by simp
next
  case (Suc n)
  have step: "F n (M, X) = (min (s n) M, max (s n) X)" for M X
    by (simp add: F_def Let_def min_def max_def)
  have "fold F [0..<Suc n] (b, c) = F n (fold F [0..<n] (b, c))" by simp
  also have "\<dots> = (min (s n) (Min (insert b (s ` {..<n}))), max (s n) (Max (insert c (s ` {..<n}))))"
    by (simp only: Suc.IH step)
  finally show ?case
    by (simp only: Min_insert_image_Suc Max_insert_image_Suc)
qed

lemma fold_sumMinMax_upt:
  fixes s t :: "nat \<Rightarrow> real"
  defines "F \<equiv> (\<lambda>i (value, dMin, dMax). let dCurPixel = s i
                                   in (value + t i * dCurPixel,
                                       if dMin > dCurPixel then dCurPixel else dMin,
                                       if dMax < dCurPixel then dCurPixel else dMax))"
  shows "fold F [0..<n] (a, b, c)
         = (a + (\<Sum>i<n. t i * s i), Min (insert b (s ` {..<n})), Max (insert c (s ` {..<n})))"
proof (induction n)
  case 0
  then show ?case by simp
next
  case (Suc n)
  have step: "F n (v, M, X) = (v + t n * s n, min (s n) M, max (s n) X)" for v M X
    by (simp add: F_def Let_def min_def max_def)
  have "fold F [0..<Suc n] (a, b, c) = F n (fold F [0..<n] (a, b, c))" by simp
  also have "\<dots> = (a + (\<Sum>i<n. t i * s i) + t n * s n,
                     min (s n) (Min (insert b (s ` {..<n}))), max (s n) (Max (insert c (s ` {..<n}))))"
    by (simp only: Suc.IH step)
  finally show ?case
    by (simp only: Min_insert_image_Suc Max_insert_image_Suc sum.lessThan_Suc add.assoc)
qed

lemma sumLoop_sum:
  "sumLoop inp filt pos_x width =
     (\<Sum>i<nat (m_numberOfTaps filt). m_floatFilter filt ! i * curPixel inp filt pos_x width i)"
  by (simp add: sumLoop_def fold_sum_upt)

lemma minMaxLoop_Min_Max:
  "minMaxLoop inp filt pos_x width =
     (Min (insert (10 ^ 20) (curPixel inp filt pos_x width ` {..<nat (m_numberOfTaps filt)})),
      Max (insert (- (10 ^ 20)) (curPixel inp filt pos_x width ` {..<nat (m_numberOfTaps filt)})))"
  unfolding minMaxLoop_def by (rule fold_minmax_upt)

lemma sumMinMaxLoop_eq:
  "sumMinMaxLoop inp filt pos_x width =
     (sumLoop inp filt pos_x width, minMaxLoop inp filt pos_x width)"
  unfolding sumMinMaxLoop_def sumLoop_sum minMaxLoop_Min_Max
  by (simp add: fold_sumMinMax_upt)


lemma set_tapSamples:
  "set (tapSamples inp filt pos_x width) = curPixel inp filt pos_x width ` {..<nat (m_numberOfTaps filt)}"
  by (simp add: tapSamples_def atLeast0LessThan)

lemma minMaxLoop_local:
  assumes "0 < m_numberOfTaps filt"
  shows "minMaxLoop inp filt pos_x width =
           (min (10 ^ 20) (localMin inp filt pos_x width),
            max (- (10 ^ 20)) (localMax inp filt pos_x width))"
proof -
  let ?S = "curPixel inp filt pos_x width ` {..<nat (m_numberOfTaps filt)}"
  have "0 \<in> {..<nat (m_numberOfTaps filt)}" using assms by simp
  then have ne: "?S \<noteq> {}" by blast
  have fin: "finite ?S" by simp
  show ?thesis
    unfolding minMaxLoop_Min_Max localMin_def localMax_def set_tapSamples
    using ne fin by (simp del: image_is_empty)
qed

lemma localMin_le_localMax:
  assumes "0 < m_numberOfTaps filt"
  shows "localMin inp filt pos_x width \<le> localMax inp filt pos_x width"
proof -
  let ?S = "curPixel inp filt pos_x width ` {..<nat (m_numberOfTaps filt)}"
  have "0 \<in> {..<nat (m_numberOfTaps filt)}" using assms by simp
  then have ne: "?S \<noteq> {}" by blast
  have fin: "finite ?S" by simp
  have "Min ?S \<le> Max ?S"
    by (rule Min_le [OF fin Max_in [OF fin ne]])
  then show ?thesis by (simp add: localMin_def localMax_def set_tapSamples)
qed

lemma minMaxLoop_in_range:
  assumes "0 < m_numberOfTaps filt"
    and "localMin inp filt pos_x width \<le> 10 ^ 20"
    and "- (10 ^ 20) \<le> localMax inp filt pos_x width"
  shows "minMaxLoop inp filt pos_x width =
           (localMin inp filt pos_x width, localMax inp filt pos_x width)"
  using assms by (simp add: minMaxLoop_local)

lemma minMaxLoop_within:
  assumes "0 < m_numberOfTaps filt"
    and "localMin inp filt pos_x width \<le> v" and "v \<le> localMax inp filt pos_x width"
  shows "\<not> (v > snd (minMaxLoop inp filt pos_x width) \<or> v < fst (minMaxLoop inp filt pos_x width))"
  using assms by (simp add: minMaxLoop_local min_def max_def)


section \<open>Congruence of the sample routines\<close>

text \<open>
  Every sample routine reads its input only through \<open>curPixel\<close> at the taps of the
  primary and of the fallback filter.
\<close>

lemma sumLoop_cong:
  assumes "\<And>t. t < nat (m_numberOfTaps filt) \<Longrightarrow>
             curPixel inp1 filt pos1 width1 t = curPixel inp2 filt pos2 width2 t"
  shows "sumLoop inp1 filt pos1 width1 = sumLoop inp2 filt pos2 width2"
  unfolding sumLoop_sum using assms by (intro sum.cong) simp_all


lemma filterHorizontal_float_cong:
  assumes "\<And>t. t < nat (m_numberOfTaps filt) \<Longrightarrow>
             curPixel inp1 filt pos1 width1 t = curPixel inp2 filt pos2 width2 t"
  shows "filterHorizontal_float inp1 filt pos1 width1 minValue maxValue
         = filterHorizontal_float inp2 filt pos2 width2 minValue maxValue"
  unfolding filterHorizontal_float_def using sumLoop_cong [OF assms] by simp


lemma filterHorizontalMinMax_Some:
  assumes "m_horFilterM this = Some fM"
  shows "\<exists>v. filterHorizontalMinMax this inp filt pos_x width minValue maxValue = Some v"
    and "\<exists>v. filterHorizontalMinMax2 this inp filt pos_x width minValue maxValue = Some v"
    and "\<exists>v. filterHorizontalMinMax3 this inp filt pos_x width minValue maxValue = Some v"
  using assms
  by (auto simp add: filterHorizontalMinMax_def filterHorizontalMinMax2_def
        filterHorizontalMinMax3_def Let_def split: prod.splits)

text \<open>Reading through the row pointer: only the samples of row \<open>j\<close> are read.\<close>

lemma curPixel_row:
  assumes j: "j < nat height" and w: "0 < width"
    and len: "nat height * (2 * nat width) \<le> length inp"
  shows "curPixel (drop (j * (2 * nat width)) inp) filt pos_x (2 * width - 1) t
         = inp ! (j * (2 * nat width) + nat (iClip (pos_x + int t - m_positionOffset filt) 0 (2 * width - 1)))"
proof -
  have "Suc j * (2 * nat width) \<le> nat height * (2 * nat width)"
    using j by (intro mult_le_mono1) simp
  then have "j * (2 * nat width) \<le> length inp" using len by simp
  then show ?thesis by (simp add: curPixel_def)
qed

section \<open>The nested loops of a plane\<close>

lemma filterRow_cols:
  fixes hrow :: "int \<Rightarrow> 'b option" and g :: "int \<Rightarrow> 'b"
  assumes h: "\<And>i. i < n \<Longrightarrow> hrow (2 * int i) = Some (g (2 * int i))"
  shows "\<exists>out'. fold (\<lambda>i acc. case acc of None \<Rightarrow> None
                         | Some out \<Rightarrow> (case hrow (2 * int i) of None \<Rightarrow> None
                              | Some v \<Rightarrow> Some (out[b + i := v])))
                   [0..<n] (Some out) = Some out'
           \<and> length out' = length out
           \<and> (\<forall>k<length out. out' ! k =
                  (if b \<le> k \<and> k < b + n then g (2 * int (k - b)) else out ! k))"
  using h
proof (induction n)
  case 0
  then show ?case by auto
next
  case (Suc n)
  then obtain out' where
    f: "fold (\<lambda>i acc. case acc of None \<Rightarrow> None
                         | Some out \<Rightarrow> (case hrow (2 * int i) of None \<Rightarrow> None
                              | Some v \<Rightarrow> Some (out[b + i := v])))
                   [0..<n] (Some out) = Some out'"
    and len: "length out' = length out"
    and nth: "\<forall>k<length out. out' ! k =
                  (if b \<le> k \<and> k < b + n then g (2 * int (k - b)) else out ! k)"
    by fastforce
  have hn: "hrow (2 * int n) = Some (g (2 * int n))" using Suc.prems by simp
  let ?out = "out'[b + n := g (2 * int n)]"
  have "fold (\<lambda>i acc. case acc of None \<Rightarrow> None
                         | Some out \<Rightarrow> (case hrow (2 * int i) of None \<Rightarrow> None
                              | Some v \<Rightarrow> Some (out[b + i := v])))
                   [0..<Suc n] (Some out) = Some ?out"
    by (simp add: f hn)
  moreover have "length ?out = length out" by (simp add: len)
  moreover have "\<forall>k<length out. ?out ! k =
                  (if b \<le> k \<and> k < b + Suc n then g (2 * int (k - b)) else out ! k)"
  proof (intro allI impI)
    fix k assume k: "k < length out"
    show "?out ! k = (if b \<le> k \<and> k < b + Suc n then g (2 * int (k - b)) else out ! k)"
    proof (cases "k = b + n")
      case True
      then show ?thesis using k len by simp
    next
      case False
      then have "?out ! k = out' ! k" by simp
      also have "\<dots> = (if b \<le> k \<and> k < b + n then g (2 * int (k - b)) else out ! k)"
        using nth k by simp
      finally show ?thesis using False by auto
    qed
  qed
  ultimately show ?case by blast
qed

lemma filterRow_Some:
  assumes h: "\<And>row pos. h row pos = Some (g row pos)"
  shows "\<exists>out'. filterRow h inp width j (Some out) = Some out'
           \<and> length out' = length out
           \<and> (\<forall>k<length out. out' ! k =
                  (if j * nat width \<le> k \<and> k < j * nat width + nat width
                   then g (drop (j * (2 * nat width)) inp) (2 * int (k - j * nat width))
                   else out ! k))"
proof (cases "0 \<le> width")
  case True
  have idx: "nat (int j * width + int i) = j * nat width + i" for i
    using True by (simp add: nat_add_distrib nat_mult_distrib)
  have row: "nat (int j * (2 * width)) = j * (2 * nat width)"
    using True by (simp add: nat_mult_distrib)
  show ?thesis
    unfolding filterRow_def idx row
    by (rule filterRow_cols) (simp add: h)
next
  case False
  then show ?thesis by (simp add: filterRow_def)
qed

lemma filterLoop_rows:
  assumes h: "\<And>row pos. h row pos = Some (g row pos)"
  shows "\<exists>out'. fold (filterRow h inp width) [0..<m] (Some out) = Some out'
           \<and> length out' = length out
           \<and> (\<forall>k<length out. out' ! k =
                  (if k < m * nat width
                   then g (drop ((k div nat width) * (2 * nat width)) inp) (2 * int (k mod nat width))
                   else out ! k))"
proof (induction m)
  case 0
  then show ?case by simp
next
  case (Suc m)
  then obtain out1 where
    f: "fold (filterRow h inp width) [0..<m] (Some out) = Some out1"
    and len: "length out1 = length out"
    and nth: "\<forall>k<length out. out1 ! k =
                  (if k < m * nat width
                   then g (drop ((k div nat width) * (2 * nat width)) inp) (2 * int (k mod nat width))
                   else out ! k)"
    by blast
  from filterRow_Some [of h g inp width m out1, OF h] obtain out2 where
    r: "filterRow h inp width m (Some out1) = Some out2"
    and len2: "length out2 = length out1"
    and nth2: "\<forall>k<length out1. out2 ! k =
                  (if m * nat width \<le> k \<and> k < m * nat width + nat width
                   then g (drop (m * (2 * nat width)) inp) (2 * int (k - m * nat width))
                   else out1 ! k)"
    by blast
  have "fold (filterRow h inp width) [0..<Suc m] (Some out) = Some out2"
    by (simp add: f r)
  moreover have "length out2 = length out" by (simp add: len len2)
  moreover have "\<forall>k<length out. out2 ! k =
                  (if k < Suc m * nat width
                   then g (drop ((k div nat width) * (2 * nat width)) inp) (2 * int (k mod nat width))
                   else out ! k)"
  proof (intro allI impI)
    fix k assume k: "k < length out"
    show "out2 ! k =
                  (if k < Suc m * nat width
                   then g (drop ((k div nat width) * (2 * nat width)) inp) (2 * int (k mod nat width))
                   else out ! k)"
    proof (cases "m * nat width \<le> k \<and> k < m * nat width + nat width")
      case True
      then have w: "0 < nat width" by auto
      from True have d: "k div nat width = m"
        by (metis add.commute div_nat_eqI mult.commute mult_Suc)
      have md: "k mod nat width = k - m * nat width"
        using d by (metis add_diff_cancel_left' mult.commute mult_div_mod_eq)
      have k1: "k < length out1" using k len by simp
      have "out2 ! k = g (drop (m * (2 * nat width)) inp) (2 * int (k - m * nat width))"
        using nth2 [rule_format, OF k1] True by (simp only: if_True simp_thms)
      moreover have "k < Suc m * nat width" using True by simp
      ultimately show ?thesis by (simp only: d md if_True)
    next
      case False
      have k1: "k < length out1" using k len by simp
      have "out2 ! k = out1 ! k"
        using nth2 [rule_format, OF k1] False by (simp only: if_False simp_thms)
      also have "\<dots> = (if k < m * nat width
                   then g (drop ((k div nat width) * (2 * nat width)) inp) (2 * int (k mod nat width))
                   else out ! k)" using nth [rule_format, OF k] .
      finally have e: "out2 ! k = (if k < m * nat width
                   then g (drop ((k div nat width) * (2 * nat width)) inp) (2 * int (k mod nat width))
                   else out ! k)" .
      have "k < m * nat width \<longleftrightarrow> k < Suc m * nat width" using False by auto
      then show ?thesis using e by (simp only:)
    qed
  qed
  ultimately show ?case by blast
qed

lemma filterLoop_nth:
  assumes h: "\<And>row pos. h row pos = Some (g row pos)"
    and j: "j < nat height" and i: "i < nat width"
    and len: "nat height * nat width \<le> length out"
  shows "\<exists>out'. filterLoop h out inp width height = Some out'
           \<and> length out' = length out
           \<and> out' ! (j * nat width + i) = g (drop (j * (2 * nat width)) inp) (2 * int i)"
proof -
  from filterLoop_rows [of h g inp width "nat height" out, OF h] obtain out' where
    f: "fold (filterRow h inp width) [0..<nat height] (Some out) = Some out'"
    and l: "length out' = length out"
    and nth: "\<forall>k<length out. out' ! k =
                  (if k < nat height * nat width
                   then g (drop ((k div nat width) * (2 * nat width)) inp) (2 * int (k mod nat width))
                   else out ! k)"
    by blast
  have "j * nat width + i < Suc j * nat width" using i by simp
  also have "\<dots> \<le> nat height * nat width" using j by (intro mult_le_mono1) simp
  finally have lt: "j * nat width + i < nat height * nat width" .
  have d: "(j * nat width + i) div nat width = j" using i by simp
  have md: "(j * nat width + i) mod nat width = i" using i by simp
  have k: "j * nat width + i < length out" using lt len by simp
  have "out' ! (j * nat width + i) = g (drop (j * (2 * nat width)) inp) (2 * int i)"
    using nth [rule_format, OF k] lt by (simp only: d md if_True)
  with f l show ?thesis by (simp add: filterLoop_def)
qed

lemma filter_float_none:
  assumes "m_useMinMax this \<notin> {1, 2, 3}"
  shows "filter_float this out inp width height minValue maxValue =
           filterLoop (\<lambda>row pos_x. Some (filterHorizontal_float row (m_horFilter this) pos_x
                                           (2 * width - 1) minValue maxValue))
             out inp width height"
  using assms by (simp add: filter_float_def Let_def)


section \<open>Border replication\<close>



section \<open>The frame-level entry point: termination and metadata\<close>

lemma msgDataTypes_neq_msgSizes: "msgDataTypes \<noteq> msgSizes a b"
  by (simp add: msgDataTypes_def msgSizes_def)

lemma filterLoop_total:
  assumes total: "\<And>row pos. \<exists>v. h row pos = Some v"
  shows "\<exists>out'. filterLoop h out inp width height = Some out'"
proof -
  have hg: "h row pos = Some (the (h row pos))" for row pos
    using total [of row pos] by auto
  from filterLoop_rows [of h "\<lambda>row pos. the (h row pos)" inp width "nat height" out, OF hg]
  show ?thesis unfolding filterLoop_def by blast
qed

lemma filter_float_total:
  assumes "m_useMinMax this \<in> {1, 2, 3} \<longrightarrow> m_horFilterM this \<noteq> None"
  shows "\<exists>plane. filter_float this out inp width height minValue maxValue = Some plane"
proof (cases "m_useMinMax this \<in> {1, 2, 3}")
  case True
  then obtain fM where fM: "m_horFilterM this = Some fM" using assms by auto
  from True show ?thesis
    by (auto simp add: filter_float_def Let_def
          intro!: filterLoop_total filterHorizontalMinMax_Some [OF fM])
next
  case False
  then show ?thesis
    by (auto simp add: filter_float_def Let_def intro!: filterLoop_total)
qed

lemma filter_int_total:
  "\<exists>plane. filter_int this out inp width height minValue maxValue = Some plane"
  by (auto simp add: filter_int_def Let_def intro!: filterLoop_total)

text \<open>The metadata of a frame: the members that \<open>process\<close> copies from the input.\<close>

lemma filterComp_float_meta:
  assumes "m_useMinMax this \<in> {1, 2, 3} \<longrightarrow> m_horFilterM this \<noteq> None"
  shows "\<exists>out'. filterComp_float this inp c (Some out) = Some out'
           \<and> m_frameNo out' = m_frameNo out \<and> m_isAvailable out' = m_isAvailable out
           \<and> m_minPelValue out' = m_minPelValue out \<and> m_midPelValue out' = m_midPelValue out
           \<and> m_maxPelValue out' = m_maxPelValue out"
proof -
  obtain plane where "filter_float this (m_floatComp out c) (m_floatComp inp c) (m_width out c)
      (m_height out c) (real_of_int (m_minPelValue out c)) (real_of_int (m_maxPelValue out c)) = Some plane"
    using filter_float_total [OF assms] by blast
  then show ?thesis by (simp add: filterComp_float_def)
qed

lemma filterComp_imgpel_meta:
  "\<exists>out'. filterComp_imgpel this inp c (Some out) = Some out'
           \<and> m_frameNo out' = m_frameNo out \<and> m_isAvailable out' = m_isAvailable out
           \<and> m_minPelValue out' = m_minPelValue out \<and> m_midPelValue out' = m_midPelValue out
           \<and> m_maxPelValue out' = m_maxPelValue out"
proof -
  obtain plane where "filter_int this (m_comp out c) (m_comp inp c) (m_width out c)
      (m_height out c) (m_minPelValue out c) (m_maxPelValue out c) = Some plane"
    using filter_int_total by blast
  then show ?thesis by (simp add: filterComp_imgpel_def)
qed

lemma filterComp_ui16_meta:
  "\<exists>out'. filterComp_ui16 this inp c (Some out) = Some out'
           \<and> m_frameNo out' = m_frameNo out \<and> m_isAvailable out' = m_isAvailable out
           \<and> m_minPelValue out' = m_minPelValue out \<and> m_midPelValue out' = m_midPelValue out
           \<and> m_maxPelValue out' = m_maxPelValue out"
proof -
  obtain plane where "filter_int this (m_ui16Comp out c) (m_ui16Comp inp c) (m_width out c)
      (m_height out c) (m_minPelValue out c) (m_maxPelValue out c) = Some plane"
    using filter_int_total by blast
  then show ?thesis by (simp add: filterComp_ui16_def)
qed

lemma chroma_loop_meta:
  assumes step: "\<And>c out. \<exists>out'. F c (Some out) = Some out'
           \<and> m_frameNo out' = m_frameNo out \<and> m_isAvailable out' = m_isAvailable out
           \<and> m_minPelValue out' = m_minPelValue out \<and> m_midPelValue out' = m_midPelValue out
           \<and> m_maxPelValue out' = m_maxPelValue out"
  shows "\<exists>out'. fold F [U_COMP..<Suc V_COMP] (Some out) = Some out'
           \<and> m_frameNo out' = m_frameNo out \<and> m_isAvailable out' = m_isAvailable out
           \<and> m_minPelValue out' = m_minPelValue out \<and> m_midPelValue out' = m_midPelValue out
           \<and> m_maxPelValue out' = m_maxPelValue out"
proof -
  have l: "[U_COMP..<Suc V_COMP] = [1, 2]"
    by (simp add: U_COMP_def V_COMP_def eval_nat_numeral)
  from step [of 1 out] obtain o1 where 1: "F 1 (Some out) = Some o1"
    "m_frameNo o1 = m_frameNo out" "m_isAvailable o1 = m_isAvailable out"
    "m_minPelValue o1 = m_minPelValue out" "m_midPelValue o1 = m_midPelValue out"
    "m_maxPelValue o1 = m_maxPelValue out" by blast
  from step [of 2 o1] obtain o2 where 2: "F 2 (Some o1) = Some o2"
    "m_frameNo o2 = m_frameNo o1" "m_isAvailable o2 = m_isAvailable o1"
    "m_minPelValue o2 = m_minPelValue o1" "m_midPelValue o2 = m_midPelValue o1"
    "m_maxPelValue o2 = m_maxPelValue o1" by blast
  show ?thesis unfolding l using 1 2 by simp
qed

lemma copyPelValues_loop:
  "fold (copyPelValues inp) [Y_COMP..<Suc V_COMP] out =
     out\<lparr>m_minPelValue := (m_minPelValue out)(0 := m_minPelValue inp 0, 1 := m_minPelValue inp 1,
                                                2 := m_minPelValue inp 2),
         m_midPelValue := (m_midPelValue out)(0 := m_midPelValue inp 0, 1 := m_midPelValue inp 1,
                                                2 := m_midPelValue inp 2),
         m_maxPelValue := (m_maxPelValue out)(0 := m_maxPelValue inp 0, 1 := m_maxPelValue inp 1,
                                                2 := m_maxPelValue inp 2)\<rparr>"
proof -
  have l: "[Y_COMP..<Suc V_COMP] = [0, 1, 2]"
    by (simp add: Y_COMP_def V_COMP_def eval_nat_numeral)
  show ?thesis unfolding l by (simp add: copyPelValues_def)
qed

lemma process_metadata:
  assumes inv: "m_useMinMax this \<in> {1, 2, 3} \<longrightarrow> m_horFilterM this \<noteq> None"
    and rep: "m_isFloat out = m_isFloat inp" "m_isFloat inp \<or> m_bitDepth out = m_bitDepth inp"
    and size: "m_compSize out Y_COMP = m_compSize inp Y_COMP"
  shows "\<exists>out'. process this out inp = Return out'
           \<and> m_frameNo out' = m_frameNo inp
           \<and> m_isAvailable out' = True
           \<and> (\<forall>c\<in>{Y_COMP, U_COMP, V_COMP}.
                 m_minPelValue out' c = m_minPelValue inp c
                 \<and> m_midPelValue out' c = m_midPelValue inp c
                 \<and> m_maxPelValue out' c = m_maxPelValue inp c)"
proof -
  define out1 where "out1 = fold (copyPelValues inp) [Y_COMP..<Suc V_COMP]
                              (out\<lparr>m_frameNo := m_frameNo inp, m_isAvailable := True\<rparr>)"
  have m1: "m_frameNo out1 = m_frameNo inp" "m_isAvailable out1 = True"
    "\<forall>c\<in>{Y_COMP, U_COMP, V_COMP}.
                 m_minPelValue out1 c = m_minPelValue inp c
                 \<and> m_midPelValue out1 c = m_midPelValue inp c
                 \<and> m_maxPelValue out1 c = m_maxPelValue inp c"
    "m_isFloat out1 = m_isFloat out" "m_bitDepth out1 = m_bitDepth out"
    unfolding out1_def copyPelValues_loop
    by (simp_all add: Y_COMP_def U_COMP_def V_COMP_def)
  define res where "res =
              (if m_isFloat out1 then
                 let out = out1\<lparr>m_floatComp := (m_floatComp out1)
                             (Y_COMP := memcpy_samples (m_floatComp out1 Y_COMP)
                                          (m_floatComp inp Y_COMP) (m_compSize out1 Y_COMP))\<rparr>
                 in fold (filterComp_float this inp) [U_COMP..<Suc V_COMP] (Some out)
               else if m_bitDepth out1 = 8 then
                 let out = out1\<lparr>m_comp := (m_comp out1)
                             (Y_COMP := memcpy_samples (m_comp out1 Y_COMP)
                                          (m_comp inp Y_COMP) (m_compSize out1 Y_COMP))\<rparr>
                 in fold (filterComp_imgpel this inp) [U_COMP..<Suc V_COMP] (Some out)
               else
                 let out = out1\<lparr>m_ui16Comp := (m_ui16Comp out1)
                             (Y_COMP := memcpy_samples (m_ui16Comp out1 Y_COMP)
                                          (m_ui16Comp inp Y_COMP) (m_compSize out1 Y_COMP))\<rparr>
                 in fold (filterComp_ui16 this inp) [U_COMP..<Suc V_COMP] (Some out))"
  have p: "process this out inp = (case res of None \<Rightarrow> Fault | Some out \<Rightarrow> Return out)"
    using rep size unfolding process_def res_def out1_def by (auto simp add: Let_def)
  have "\<exists>out'. res = Some out'
           \<and> m_frameNo out' = m_frameNo out1 \<and> m_isAvailable out' = m_isAvailable out1
           \<and> m_minPelValue out' = m_minPelValue out1 \<and> m_midPelValue out' = m_midPelValue out1
           \<and> m_maxPelValue out' = m_maxPelValue out1"
  proof (cases "m_isFloat out1")
    case True
    show ?thesis
      using chroma_loop_meta [of "filterComp_float this inp"
          "out1\<lparr>m_floatComp := (m_floatComp out1)(Y_COMP := memcpy_samples (m_floatComp out1 Y_COMP) (m_floatComp inp Y_COMP) (m_compSize out1 Y_COMP))\<rparr>", OF filterComp_float_meta [OF inv]]
      unfolding res_def by (simp add: True Let_def del: upt_Suc)
  next
    case False
    show ?thesis
    proof (cases "m_bitDepth out1 = 8")
      case True
      show ?thesis
        using chroma_loop_meta [of "filterComp_imgpel this inp"
          "out1\<lparr>m_comp := (m_comp out1)(Y_COMP := memcpy_samples (m_comp out1 Y_COMP) (m_comp inp Y_COMP) (m_compSize out1 Y_COMP))\<rparr>", OF filterComp_imgpel_meta]
        unfolding res_def by (simp add: True \<open>\<not> m_isFloat out1\<close> Let_def del: upt_Suc)
    next
      case b: False
      show ?thesis
        using chroma_loop_meta [of "filterComp_ui16 this inp"
          "out1\<lparr>m_ui16Comp := (m_ui16Comp out1)(Y_COMP := memcpy_samples (m_ui16Comp out1 Y_COMP) (m_ui16Comp inp Y_COMP) (m_compSize out1 Y_COMP))\<rparr>", OF filterComp_ui16_meta]
        unfolding res_def by (simp add: b \<open>\<not> m_isFloat out1\<close> Let_def del: upt_Suc)
    qed
  qed
  then obtain out' where "res = Some out'"
           "m_frameNo out' = m_frameNo out1" "m_isAvailable out' = m_isAvailable out1"
           "m_minPelValue out' = m_minPelValue out1" "m_midPelValue out' = m_midPelValue out1"
           "m_maxPelValue out' = m_maxPelValue out1" by blast
  with m1 p show ?thesis by simp
qed

lemma Conv444to422Generic_new_inv:
  "m_useMinMax (Conv444to422Generic_new newScaleFilter DF_F0 width height method chromaLocationType useMinMax) \<in> {1, 2, 3}
   \<longrightarrow> m_horFilterM (Conv444to422Generic_new newScaleFilter DF_F0 width height method chromaLocationType useMinMax) \<noteq> None"
  by (simp add: Conv444to422Generic_new_def Let_def)

section \<open>Claims about the converter\<close>

subsection \<open>C1: mismatching frames\<close>

text \<open>
  Claim C1, as stated, fails: for two 8-bit and 10-bit fixed-point frames, \<open>process\<close>
  does not return to its caller with an error; it ends the program with status
  \<open>EXIT_FAILURE\<close>.
\<close>

theorem C1_mismatch_ends_program_counterexample:
  "m_isFloat (exOutput False 8) = m_isFloat (exInput False 10 7 True)
   \<and> m_bitDepth (exOutput False 8) \<noteq> m_bitDepth (exInput False 10 7 True)
   \<and> process (exConv 0 (exFilter [1] False) None) (exOutput False 8) (exInput False 10 7 True)
       = Exit EXIT_FAILURE msgDataTypes (exOutput False 8)
   \<and> \<not> returnsToCaller
          (process (exConv 0 (exFilter [1] False) None) (exOutput False 8) (exInput False 10 7 True))"
  by (simp add: process_def returnsToCaller_def exOutput_def exInput_def)

text \<open>
  Claim C1, amended: for every output and input frame that differ in representation (one
  float and one fixed-point, or both fixed-point with different bit depths), \<open>process\<close>
  ends the program with the failure status after writing the data-type message to
  \<open>stderr\<close>; for frames of the same representation whose luma planes have different
  sample counts it ends the program with the failure status after writing the size
  message, which names both counts. The two messages differ, and in both cases the output
  frame is, at that moment, exactly as it was passed in: no pixel buffer and no metadata
  member has been written.
\<close>

theorem C1_mismatch_exits_before_any_write:
  "(m_isFloat out \<noteq> m_isFloat inp \<or> (\<not> m_isFloat inp \<and> m_bitDepth out \<noteq> m_bitDepth inp)
      \<longrightarrow> process this out inp = Exit EXIT_FAILURE msgDataTypes out)
   \<and> (m_isFloat out = m_isFloat inp \<and> (m_isFloat inp \<or> m_bitDepth out = m_bitDepth inp)
        \<and> m_compSize out Y_COMP \<noteq> m_compSize inp Y_COMP
      \<longrightarrow> process this out inp
            = Exit EXIT_FAILURE (msgSizes (m_compSize out Y_COMP) (m_compSize inp Y_COMP)) out)
   \<and> msgDataTypes \<noteq> msgSizes (m_compSize out Y_COMP) (m_compSize inp Y_COMP)"
  by (auto simp add: process_def msgDataTypes_neq_msgSizes)

theorem C1_mismatch_exits_before_any_write_witness:
  "(\<not> m_isFloat (exInput False 10 7 True)
      \<and> m_bitDepth (exOutput False 8) \<noteq> m_bitDepth (exInput False 10 7 True))
   \<and> process (exConv 0 (exFilter [1] False) None) (exOutput False 8) (exInput False 10 7 True)
       = Exit EXIT_FAILURE msgDataTypes (exOutput False 8)
   \<and> (m_isFloat (exOutput True 8) = m_isFloat ((exInput True 8 7 True)\<lparr>m_compSize := (\<lambda>c. 3)\<rparr>)
        \<and> m_isFloat ((exInput True 8 7 True)\<lparr>m_compSize := (\<lambda>c. 3)\<rparr>)
        \<and> m_compSize (exOutput True 8) Y_COMP
             \<noteq> m_compSize ((exInput True 8 7 True)\<lparr>m_compSize := (\<lambda>c. 3)\<rparr>) Y_COMP)
   \<and> process (exConv 0 (exFilter [1] False) None) (exOutput True 8)
         ((exInput True 8 7 True)\<lparr>m_compSize := (\<lambda>c. 3)\<rparr>)
       = Exit EXIT_FAILURE
           (''Error: trying to copy frames of different sizes (2  vs 3). '' @ [CHR 0x0A])
           (exOutput True 8)"
proof -
  have a: "\<not> m_isFloat (exInput False 10 7 True)
      \<and> m_bitDepth (exOutput False 8) \<noteq> m_bitDepth (exInput False 10 7 True)"
    by (simp add: exOutput_def exInput_def)
  have b: "m_isFloat (exOutput True 8) = m_isFloat ((exInput True 8 7 True)\<lparr>m_compSize := (\<lambda>c. 3)\<rparr>)
        \<and> m_isFloat ((exInput True 8 7 True)\<lparr>m_compSize := (\<lambda>c. 3)\<rparr>)
        \<and> m_compSize (exOutput True 8) Y_COMP
             \<noteq> m_compSize ((exInput True 8 7 True)\<lparr>m_compSize := (\<lambda>c. 3)\<rparr>) Y_COMP"
    by (simp add: exOutput_def exInput_def Y_COMP_def)
  have c: "msgSizes (m_compSize (exOutput True 8) Y_COMP)
             (m_compSize ((exInput True 8 7 True)\<lparr>m_compSize := (\<lambda>c. 3)\<rparr>) Y_COMP)
           = ''Error: trying to copy frames of different sizes (2  vs 3). '' @ [CHR 0x0A]"
    by (simp add: msgSizes_def show_int_def exOutput_def exInput_def Y_COMP_def)
  show ?thesis
    using a b
      C1_mismatch_exits_before_any_write
        [of "exOutput False 8" "exInput False 10 7 True" "exConv 0 (exFilter [1] False) None"]
      C1_mismatch_exits_before_any_write
        [of "exOutput True 8" "(exInput True 8 7 True)\<lparr>m_compSize := (\<lambda>c. 3)\<rparr>"
            "exConv 0 (exFilter [1] False) None"]
    unfolding c by blast
qed

subsection \<open>C2: the final clip\<close>

text \<open>
  Claim C2 at the policy None: a one-tap primary filter with tap \<open>1\<close> and its clip flag
  set, an input row of two samples \<open>100\<close>, one output column, \<open>minValue = 0\<close> and
  \<open>maxValue = 255\<close>. The plane filter stores \<open>0.5\<close>, although \<open>100\<close> lies within
  \<open>[minValue, maxValue]\<close>; with the policy selector \<open>1\<close> the same input gives \<open>100\<close>.
\<close>

theorem C2_none_policy_clips_to_half:
  "filter_float (exConv 0 (exFilter [1] True) None) [0] [100, 100] 1 1 0 255 = Some [1 / 2]
   \<and> fClip 100 0 255 = 100
   \<and> filter_float (exConv 1 (exFilter [1] True) (Some (exFilter [1] True))) [0] [100, 100] 1 1 0 255
       = Some [100]"
  by (simp add: filter_float_def filterLoop_def filterRow_def filterHorizontal_float_def
        filterHorizontalMinMax_def sumMinMaxLoop_def sumLoop_def clipResult_def curPixel_def
        iClip_def fClip_def exConv_def exFilter_def Let_def)

subsection \<open>C3: metadata\<close>

text \<open>
  Claim C3, as stated, fails: with an input frame whose availability flag is not set,
  \<open>process\<close> returns an output frame whose availability flag is set.
\<close>

theorem C3_availability_not_copied_counterexample:
  "\<not> m_isAvailable (exInput True 8 7 False)
   \<and> (case process (exConv 0 (exFilter [1] False) None) (exOutput True 8) (exInput True 8 7 False) of
         Return out' \<Rightarrow> m_isAvailable out' \<and> m_frameNo out' = 7
       | Exit status err out' \<Rightarrow> False
       | Fault \<Rightarrow> False)"
  by (simp add: process_def exOutput_def exInput_def exConv_def exFilter_def Y_COMP_def U_COMP_def
        V_COMP_def copyPelValues_def memcpy_samples_def filterComp_float_def filter_float_def
        filterLoop_def filterRow_def filterHorizontal_float_def sumLoop_def curPixel_def iClip_def
        Let_def eval_nat_numeral)

text \<open>
  Claim C3, amended: for every call to \<open>process\<close> on a converter built by the constructor
  whose input and output frames pass the representation and size checks, \<open>process\<close>
  returns, and in the output frame the frame sequence number and the minimum, middle and
  maximum pixel values of the components Y, U and V equal those of the input frame; the
  availability flag of the output frame is set, whatever the flag of the input frame is.
\<close>

theorem C3_process_metadata:
  assumes "m_isFloat out = m_isFloat inp"
    and "m_isFloat inp \<or> m_bitDepth out = m_bitDepth inp"
    and "m_compSize out Y_COMP = m_compSize inp Y_COMP"
  shows "\<exists>out'. process (Conv444to422Generic_new newScaleFilter DF_F0 width height method
                          chromaLocationType useMinMax) out inp = Return out'
           \<and> m_frameNo out' = m_frameNo inp
           \<and> m_isAvailable out' = True
           \<and> (\<forall>c\<in>{Y_COMP, U_COMP, V_COMP}.
                 m_minPelValue out' c = m_minPelValue inp c
                 \<and> m_midPelValue out' c = m_midPelValue inp c
                 \<and> m_maxPelValue out' c = m_maxPelValue inp c)"
  using Conv444to422Generic_new_inv assms by (rule process_metadata)

theorem C3_process_metadata_witness:
  "m_isFloat (exOutput True 8) = m_isFloat (exInput True 8 7 False)
   \<and> (m_isFloat (exInput True 8 7 False) \<or> m_bitDepth (exOutput True 8) = m_bitDepth (exInput True 8 7 False))
   \<and> m_compSize (exOutput True 8) Y_COMP = m_compSize (exInput True 8 7 False) Y_COMP
   \<and> (\<exists>out'. process (Conv444to422Generic_new exNewScaleFilter 0 1 1 5 (\<lambda>fp. CL_ONE) 2)
                 (exOutput True 8) (exInput True 8 7 False) = Return out'
           \<and> m_frameNo out' = 7
           \<and> m_isAvailable out'
           \<and> m_minPelValue out' U_COMP = 16
           \<and> m_midPelValue out' V_COMP = 128
           \<and> m_maxPelValue out' Y_COMP = 235)"
proof -
  have a: "m_isFloat (exOutput True 8) = m_isFloat (exInput True 8 7 False)"
    and b: "m_isFloat (exInput True 8 7 False) \<or> m_bitDepth (exOutput True 8) = m_bitDepth (exInput True 8 7 False)"
    and c: "m_compSize (exOutput True 8) Y_COMP = m_compSize (exInput True 8 7 False) Y_COMP"
    by (simp_all add: exOutput_def exInput_def Y_COMP_def)
  have d: "m_frameNo (exInput True 8 7 False) = 7"
    "m_minPelValue (exInput True 8 7 False) U_COMP = 16"
    "m_midPelValue (exInput True 8 7 False) V_COMP = 128"
    "m_maxPelValue (exInput True 8 7 False) Y_COMP = 235"
    by (simp_all add: exInput_def)
  from C3_process_metadata [OF a b c, of exNewScaleFilter 0 1 1 5 "\<lambda>fp. CL_ONE" 2]
  show ?thesis using a b c d by auto
qed

subsection \<open>C4: RecomputeIfOutside and BlendIfOutside\<close>

text \<open>
  Claim C4, as stated, fails: the routines start their running minimum and maximum at
  \<open>1e20\<close> and \<open>-1e20\<close>. With a single tap \<open>0.5\<close> on a sample \<open>4e20\<close>, the primary result
  \<open>2e20\<close> lies below the least sample under the taps, hence outside the local range, and
  the output of the RecomputeIfOutside routine is nevertheless the primary result and
  not the scaled value \<open>4e20\<close> of the fallback filter.
\<close>

theorem C4_sentinel_counterexample:
  "scaledValue [4 * 10 ^ 20] (exFilter [1 / 2] False) 0 0
     < localMin [4 * 10 ^ 20] (exFilter [1 / 2] False) 0 0
   \<and> filterHorizontalMinMax (exConv 1 (exFilter [1 / 2] False) (Some (exFilter [1] False)))
        [4 * 10 ^ 20] (exFilter [1 / 2] False) 0 0 0 255
       = Some (scaledValue [4 * 10 ^ 20] (exFilter [1 / 2] False) 0 0)
   \<and> filterHorizontalMinMax (exConv 1 (exFilter [1 / 2] False) (Some (exFilter [1] False)))
        [4 * 10 ^ 20] (exFilter [1 / 2] False) 0 0 0 255
       \<noteq> Some (scaledValue [4 * 10 ^ 20] (exFilter [1] False) 0 0)"
  by (simp add: filterHorizontalMinMax_def sumMinMaxLoop_def scaledValue_def localMin_def
        tapSamples_def sumLoop_def clipResult_def curPixel_def iClip_def exConv_def exFilter_def)

text \<open>
  Claim C4, amended: let the converter hold a fallback filter, and let the tap window that
  defines the local range (the primary filter's own for RecomputeIfOutside, the fallback
  filter's for BlendIfOutside) have at least one tap. Whenever the primary filter's
  scaled result lies within the local minimum and maximum of the samples of that window,
  the value resolved by the policy equals the primary result exactly, with no
  contribution from the fallback filter. When it lies outside, and the least sample of
  the window is at most \<open>1e20\<close> and the greatest at least \<open>-1e20\<close>, the resolved value is
  the fallback filter's scaled accumulated value. The routine returns the resolved value
  after the final clip stage of the primary filter (unchanged when its clip flag is not
  set).
\<close>

theorem C4_recompute_blend_resolution:
  assumes "m_horFilterM this = Some horFilterM"
  shows "(0 < m_numberOfTaps filt
            \<and> localMin inp filt pos_x width \<le> scaledValue inp filt pos_x width
            \<and> scaledValue inp filt pos_x width \<le> localMax inp filt pos_x width \<longrightarrow>
          filterHorizontalMinMax this inp filt pos_x width minValue maxValue =
            Some (clipResult filt (scaledValue inp filt pos_x width) minValue maxValue))
       \<and> (0 < m_numberOfTaps filt
            \<and> localMin inp filt pos_x width \<le> 10 ^ 20
            \<and> - (10 ^ 20) \<le> localMax inp filt pos_x width
            \<and> \<not> (localMin inp filt pos_x width \<le> scaledValue inp filt pos_x width
                  \<and> scaledValue inp filt pos_x width \<le> localMax inp filt pos_x width) \<longrightarrow>
          filterHorizontalMinMax this inp filt pos_x width minValue maxValue =
            Some (clipResult filt (scaledValue inp horFilterM pos_x width) minValue maxValue))
       \<and> (0 < m_numberOfTaps horFilterM
            \<and> localMin inp horFilterM pos_x width \<le> scaledValue inp filt pos_x width
            \<and> scaledValue inp filt pos_x width \<le> localMax inp horFilterM pos_x width \<longrightarrow>
          filterHorizontalMinMax2 this inp filt pos_x width minValue maxValue =
            Some (clipResult filt (scaledValue inp filt pos_x width) minValue maxValue))
       \<and> (0 < m_numberOfTaps horFilterM
            \<and> localMin inp horFilterM pos_x width \<le> 10 ^ 20
            \<and> - (10 ^ 20) \<le> localMax inp horFilterM pos_x width
            \<and> \<not> (localMin inp horFilterM pos_x width \<le> scaledValue inp filt pos_x width
                  \<and> scaledValue inp filt pos_x width \<le> localMax inp horFilterM pos_x width) \<longrightarrow>
          filterHorizontalMinMax2 this inp filt pos_x width minValue maxValue =
            Some (clipResult filt (scaledValue inp horFilterM pos_x width) minValue maxValue))"
proof (intro conjI impI)
  assume a: "0 < m_numberOfTaps filt
            \<and> localMin inp filt pos_x width \<le> scaledValue inp filt pos_x width
            \<and> scaledValue inp filt pos_x width \<le> localMax inp filt pos_x width"
  then have "\<not> (scaledValue inp filt pos_x width > snd (minMaxLoop inp filt pos_x width)
               \<or> scaledValue inp filt pos_x width < fst (minMaxLoop inp filt pos_x width))"
    by (intro minMaxLoop_within) simp_all
  then show "filterHorizontalMinMax this inp filt pos_x width minValue maxValue =
            Some (clipResult filt (scaledValue inp filt pos_x width) minValue maxValue)"
    by (auto simp add: filterHorizontalMinMax_def sumMinMaxLoop_eq scaledValue_def Let_def
          split: prod.splits)
next
  assume a: "0 < m_numberOfTaps filt
            \<and> localMin inp filt pos_x width \<le> 10 ^ 20
            \<and> - (10 ^ 20) \<le> localMax inp filt pos_x width
            \<and> \<not> (localMin inp filt pos_x width \<le> scaledValue inp filt pos_x width
                  \<and> scaledValue inp filt pos_x width \<le> localMax inp filt pos_x width)"
  then have "minMaxLoop inp filt pos_x width =
               (localMin inp filt pos_x width, localMax inp filt pos_x width)"
    by (simp add: minMaxLoop_in_range)
  then show "filterHorizontalMinMax this inp filt pos_x width minValue maxValue =
            Some (clipResult filt (scaledValue inp horFilterM pos_x width) minValue maxValue)"
    using assms a
    by (auto simp add: filterHorizontalMinMax_def sumMinMaxLoop_eq scaledValue_def Let_def)
next
  assume a: "0 < m_numberOfTaps horFilterM
            \<and> localMin inp horFilterM pos_x width \<le> scaledValue inp filt pos_x width
            \<and> scaledValue inp filt pos_x width \<le> localMax inp horFilterM pos_x width"
  then have "\<not> (scaledValue inp filt pos_x width > snd (minMaxLoop inp horFilterM pos_x width)
               \<or> scaledValue inp filt pos_x width < fst (minMaxLoop inp horFilterM pos_x width))"
    by (intro minMaxLoop_within) simp_all
  then show "filterHorizontalMinMax2 this inp filt pos_x width minValue maxValue =
            Some (clipResult filt (scaledValue inp filt pos_x width) minValue maxValue)"
    using assms
    by (auto simp add: filterHorizontalMinMax2_def sumMinMaxLoop_eq scaledValue_def Let_def
          split: prod.splits)
next
  assume a: "0 < m_numberOfTaps horFilterM
            \<and> localMin inp horFilterM pos_x width \<le> 10 ^ 20
            \<and> - (10 ^ 20) \<le> localMax inp horFilterM pos_x width
            \<and> \<not> (localMin inp horFilterM pos_x width \<le> scaledValue inp filt pos_x width
                  \<and> scaledValue inp filt pos_x width \<le> localMax inp horFilterM pos_x width)"
  then have "minMaxLoop inp horFilterM pos_x width =
               (localMin inp horFilterM pos_x width, localMax inp horFilterM pos_x width)"
    by (simp add: minMaxLoop_in_range)
  then show "filterHorizontalMinMax2 this inp filt pos_x width minValue maxValue =
            Some (clipResult filt (scaledValue inp horFilterM pos_x width) minValue maxValue)"
    using assms a
    by (auto simp add: filterHorizontalMinMax2_def sumMinMaxLoop_eq scaledValue_def Let_def)
qed

theorem C4_recompute_blend_resolution_witness:
  "m_horFilterM (exConv 1 (exFilter [1 / 4, 3 / 4] False) (Some (exFilter [1, 1] False)))
     = Some (exFilter [1, 1] False)
   \<and> m_horFilterM (exConv 1 (exFilter [1, 1] False) (Some (exFilter [1 / 2, 1 / 2] False)))
     = Some (exFilter [1 / 2, 1 / 2] False)
   \<and> 0 < m_numberOfTaps (exFilter [1 / 4, 3 / 4] False)
   \<and> 0 < m_numberOfTaps (exFilter [1, 1] False)
   \<and> 0 < m_numberOfTaps (exFilter [1 / 2, 1 / 2] False)
   \<and> localMin [1, 3] (exFilter [1 / 4, 3 / 4] False) 0 1 = 1
   \<and> localMax [1, 3] (exFilter [1 / 4, 3 / 4] False) 0 1 = 3
   \<and> localMin [1, 3] (exFilter [1, 1] False) 0 1 = 1
   \<and> localMax [1, 3] (exFilter [1, 1] False) 0 1 = 3
   \<and> localMin [1, 3] (exFilter [1 / 2, 1 / 2] False) 0 1 = 1
   \<and> localMax [1, 3] (exFilter [1 / 2, 1 / 2] False) 0 1 = 3
   \<and> scaledValue [1, 3] (exFilter [1 / 4, 3 / 4] False) 0 1 = 5 / 2
   \<and> scaledValue [1, 3] (exFilter [1, 1] False) 0 1 = 4
   \<and> scaledValue [1, 3] (exFilter [1 / 2, 1 / 2] False) 0 1 = 2
   \<and> filterHorizontalMinMax (exConv 1 (exFilter [1 / 4, 3 / 4] False) (Some (exFilter [1, 1] False)))
        [1, 3] (exFilter [1 / 4, 3 / 4] False) 0 1 0 255 = Some (5 / 2)
   \<and> filterHorizontalMinMax2 (exConv 1 (exFilter [1 / 4, 3 / 4] False) (Some (exFilter [1, 1] False)))
        [1, 3] (exFilter [1 / 4, 3 / 4] False) 0 1 0 255 = Some (5 / 2)
   \<and> filterHorizontalMinMax (exConv 1 (exFilter [1, 1] False) (Some (exFilter [1 / 2, 1 / 2] False)))
        [1, 3] (exFilter [1, 1] False) 0 1 0 255 = Some 2
   \<and> filterHorizontalMinMax2 (exConv 1 (exFilter [1, 1] False) (Some (exFilter [1 / 2, 1 / 2] False)))
        [1, 3] (exFilter [1, 1] False) 0 1 0 255 = Some 2"
proof -
  have h1: "m_horFilterM (exConv 1 (exFilter [1 / 4, 3 / 4] False) (Some (exFilter [1, 1] False)))
     = Some (exFilter [1, 1] False)"
    and h2: "m_horFilterM (exConv 1 (exFilter [1, 1] False) (Some (exFilter [1 / 2, 1 / 2] False)))
     = Some (exFilter [1 / 2, 1 / 2] False)"
    by (simp_all add: exConv_def)
  have v: "localMin [1, 3] (exFilter [1 / 4, 3 / 4] False) 0 1 = 1"
    "localMax [1, 3] (exFilter [1 / 4, 3 / 4] False) 0 1 = 3"
    "localMin [1, 3] (exFilter [1, 1] False) 0 1 = 1"
    "localMax [1, 3] (exFilter [1, 1] False) 0 1 = 3"
    "localMin [1, 3] (exFilter [1 / 2, 1 / 2] False) 0 1 = 1"
    "localMax [1, 3] (exFilter [1 / 2, 1 / 2] False) 0 1 = 3"
    "scaledValue [1, 3] (exFilter [1 / 4, 3 / 4] False) 0 1 = 5 / 2"
    "scaledValue [1, 3] (exFilter [1, 1] False) 0 1 = 4"
    "scaledValue [1, 3] (exFilter [1 / 2, 1 / 2] False) 0 1 = 2"
    by (simp_all add: localMin_def localMax_def tapSamples_def scaledValue_def sumLoop_def
          curPixel_def iClip_def exFilter_def eval_nat_numeral)
  have t: "m_numberOfTaps (exFilter [1 / 4, 3 / 4] False) = 2"
    "m_numberOfTaps (exFilter [1, 1] False) = 2"
    "m_numberOfTaps (exFilter [1 / 2, 1 / 2] False) = 2"
    "\<not> m_clip (exFilter [1 / 4, 3 / 4] False)" "\<not> m_clip (exFilter [1, 1] False)"
    by (simp_all add: exFilter_def)
  from C4_recompute_blend_resolution [OF h1, of "exFilter [1 / 4, 3 / 4] False" "[1, 3]" 0 1 0 255]
    C4_recompute_blend_resolution [OF h2, of "exFilter [1, 1] False" "[1, 3]" 0 1 0 255]
  show ?thesis using h1 h2 by (simp add: v t clipResult_def)
qed

subsection \<open>C7: ClampToLocalRange\<close>

text \<open>
  Claim C7, as stated, fails, for the same reason as C4: with a fallback filter of one tap
  on a sample \<open>2e20\<close> and a primary result \<open>0\<close>, the resolved value is \<open>1e20\<close>, below the
  least (and only) sample under the taps of the fallback filter.
\<close>

theorem C7_sentinel_counterexample:
  "filterHorizontalMinMax3 (exConv 3 (exFilter [0] False) (Some (exFilter [1] False)))
     [2 * 10 ^ 20] (exFilter [0] False) 0 0 0 255 = Some (10 ^ 20)
   \<and> \<not> localMin [2 * 10 ^ 20] (exFilter [1] False) 0 0 \<le> 10 ^ 20"
  by (simp add: filterHorizontalMinMax3_def minMaxLoop_def localMin_def tapSamples_def sumLoop_def
        clipResult_def curPixel_def iClip_def exConv_def exFilter_def)

text \<open>
  Claim C7, amended: let the converter hold a fallback filter with at least one tap, and
  let the least sample under its taps be at most \<open>1e20\<close> and the greatest at least
  \<open>-1e20\<close>. Then at every sample position the value resolved by ClampToLocalRange is the
  primary filter's scaled result clamped into \<open>[localMin, localMax]\<close>, so that
  \<open>localMin \<le> value \<le> localMax\<close>, where \<open>localMin\<close> and \<open>localMax\<close> are the minimum and
  maximum of the fallback filter's tap samples at that position. The routine returns the
  resolved value after the final clip stage of the primary filter (unchanged when its
  clip flag is not set).
\<close>

theorem C7_clamp_to_local_range:
  assumes "m_horFilterM this = Some horFilterM"
    and "0 < m_numberOfTaps horFilterM"
    and "localMin inp horFilterM pos_x width \<le> 10 ^ 20"
    and "- (10 ^ 20) \<le> localMax inp horFilterM pos_x width"
  shows "filterHorizontalMinMax3 this inp filt pos_x width minValue maxValue =
           Some (clipResult filt
                   (max (localMin inp horFilterM pos_x width)
                      (min (localMax inp horFilterM pos_x width)
                         (scaledValue inp filt pos_x width)))
                   minValue maxValue)
         \<and> localMin inp horFilterM pos_x width
             \<le> max (localMin inp horFilterM pos_x width)
                  (min (localMax inp horFilterM pos_x width) (scaledValue inp filt pos_x width))
         \<and> max (localMin inp horFilterM pos_x width)
                  (min (localMax inp horFilterM pos_x width) (scaledValue inp filt pos_x width))
             \<le> localMax inp horFilterM pos_x width"
proof -
  have mm: "minMaxLoop inp horFilterM pos_x width =
               (localMin inp horFilterM pos_x width, localMax inp horFilterM pos_x width)"
    using assms(2-4) by (rule minMaxLoop_in_range)
  have le: "localMin inp horFilterM pos_x width \<le> localMax inp horFilterM pos_x width"
    using assms(2) by (rule localMin_le_localMax)
  have "filterHorizontalMinMax3 this inp filt pos_x width minValue maxValue =
           Some (clipResult filt
                   (max (localMin inp horFilterM pos_x width)
                      (min (localMax inp horFilterM pos_x width)
                         (scaledValue inp filt pos_x width)))
                   minValue maxValue)"
    using assms(1) le
    by (auto simp add: filterHorizontalMinMax3_def mm scaledValue_def Let_def max_def min_def)
  with le show ?thesis by simp
qed

theorem C7_clamp_to_local_range_witness:
  "m_horFilterM (exConv 3 (exFilter [5] False) (Some (exFilter [1, 1] False)))
     = Some (exFilter [1, 1] False)
   \<and> 0 < m_numberOfTaps (exFilter [1, 1] False)
   \<and> localMin [1, 3] (exFilter [1, 1] False) 0 1 \<le> 10 ^ 20
   \<and> - (10 ^ 20) \<le> localMax [1, 3] (exFilter [1, 1] False) 0 1
   \<and> filterHorizontalMinMax3 (exConv 3 (exFilter [5] False) (Some (exFilter [1, 1] False)))
        [1, 3] (exFilter [5] False) 0 1 0 255 = Some 3
   \<and> localMin [1, 3] (exFilter [1, 1] False) 0 1 = 1
   \<and> localMax [1, 3] (exFilter [1, 1] False) 0 1 = 3"
proof -
  have h: "m_horFilterM (exConv 3 (exFilter [5] False) (Some (exFilter [1, 1] False)))
     = Some (exFilter [1, 1] False)"
    by (simp add: exConv_def)
  have v: "localMin [1, 3] (exFilter [1, 1] False) 0 1 = 1"
    "localMax [1, 3] (exFilter [1, 1] False) 0 1 = 3"
    "scaledValue [1, 3] (exFilter [5] False) 0 1 = 5"
    by (simp_all add: localMin_def localMax_def tapSamples_def scaledValue_def sumLoop_def
          curPixel_def iClip_def exFilter_def eval_nat_numeral)
  have t: "0 < m_numberOfTaps (exFilter [1, 1] False)" "\<not> m_clip (exFilter [5] False)"
    by (simp_all add: exFilter_def)
  have lo: "localMin [1, 3] (exFilter [1, 1] False) 0 1 \<le> 10 ^ 20"
    and hi: "- (10 ^ 20) \<le> localMax [1, 3] (exFilter [1, 1] False) 0 1"
    by (simp_all add: v)
  from C7_clamp_to_local_range [OF h t(1) lo hi, of "exFilter [5] False" 0 255]
  show ?thesis using h t by (simp add: v clipResult_def)
qed

subsection \<open>C8: border replication\<close>



subsection \<open>C9: locality under the policy None\<close>

text \<open>
  Claim C9. Under the policy None, the value that the floating-point plane filter stores
  at row \<open>j\<close> and column \<open>i\<close> depends only on the input samples of row \<open>j\<close> at the (clamped)
  columns of the primary filter's tap window around position \<open>2 * i\<close>: two input planes
  that agree on those samples give the same value at \<open>(j, i)\<close>, whatever their other
  samples and whatever the previous contents of the output planes are.
\<close>

theorem C9_none_policy_locality:
  assumes none: "m_useMinMax this \<notin> {1, 2, 3}"
    and j: "j < nat height" and i: "i < nat width"
    and lo1: "nat height * nat width \<le> length out1"
    and lo2: "nat height * nat width \<le> length out2"
    and li1: "nat height * (2 * nat width) \<le> length inp1"
    and li2: "nat height * (2 * nat width) \<le> length inp2"
    and agree: "\<forall>t<nat (m_numberOfTaps (m_horFilter this)).
        inp1 ! (j * (2 * nat width)
                + nat (iClip (2 * int i + int t - m_positionOffset (m_horFilter this)) 0 (2 * width - 1)))
      = inp2 ! (j * (2 * nat width)
                + nat (iClip (2 * int i + int t - m_positionOffset (m_horFilter this)) 0 (2 * width - 1)))"
  shows "\<exists>o1 o2. filter_float this out1 inp1 width height minValue maxValue = Some o1
           \<and> filter_float this out2 inp2 width height minValue maxValue = Some o2
           \<and> o1 ! (j * nat width + i) = o2 ! (j * nat width + i)"
proof -
  let ?g = "\<lambda>row pos_x. filterHorizontal_float row (m_horFilter this) pos_x
                            (2 * width - 1) minValue maxValue"
  have w: "0 < width" using i by simp
  obtain o1 where f1: "filterLoop (\<lambda>row pos_x. Some (?g row pos_x)) out1 inp1 width height = Some o1"
    and n1: "o1 ! (j * nat width + i) = ?g (drop (j * (2 * nat width)) inp1) (2 * int i)"
    using filterLoop_nth [of "\<lambda>row pos_x. Some (?g row pos_x)" ?g j height i width out1 inp1, OF refl j i lo1]
    by blast
  obtain o2 where f2: "filterLoop (\<lambda>row pos_x. Some (?g row pos_x)) out2 inp2 width height = Some o2"
    and n2: "o2 ! (j * nat width + i) = ?g (drop (j * (2 * nat width)) inp2) (2 * int i)"
    using filterLoop_nth [of "\<lambda>row pos_x. Some (?g row pos_x)" ?g j height i width out2 inp2, OF refl j i lo2]
    by blast
  have "?g (drop (j * (2 * nat width)) inp1) (2 * int i) = ?g (drop (j * (2 * nat width)) inp2) (2 * int i)"
  proof (rule filterHorizontal_float_cong)
    fix t assume t: "t < nat (m_numberOfTaps (m_horFilter this))"
    show "curPixel (drop (j * (2 * nat width)) inp1) (m_horFilter this) (2 * int i) (2 * width - 1) t
        = curPixel (drop (j * (2 * nat width)) inp2) (m_horFilter this) (2 * int i) (2 * width - 1) t"
      unfolding curPixel_row [OF j w li1] curPixel_row [OF j w li2]
      using agree t by blast
  qed
  with n1 n2 have "o1 ! (j * nat width + i) = o2 ! (j * nat width + i)" by simp
  with f1 f2 show ?thesis
    unfolding filter_float_none [OF none] by blast
qed

theorem C9_none_policy_locality_witness:
  "m_useMinMax (exConv 0 ((exFilter [1, 2, 1] False)\<lparr>m_positionOffset := 1\<rparr>) None) = 0
   \<and> (0::nat) < nat 1 \<and> (0::nat) < nat 2
   \<and> nat 1 * nat 2 \<le> length [0, 0 :: real]
   \<and> nat 1 * nat 2 \<le> length [7, 7 :: real]
   \<and> nat 1 * (2 * nat 2) \<le> length [1, 2, 3, 4 :: real]
   \<and> nat 1 * (2 * nat 2) \<le> length [1, 2, 9, 9 :: real]
   \<and> (\<exists>o1 o2.
         filter_float (exConv 0 ((exFilter [1, 2, 1] False)\<lparr>m_positionOffset := 1\<rparr>) None)
           [0, 0] [1, 2, 3, 4] 2 1 0 255 = Some o1
         \<and> filter_float (exConv 0 ((exFilter [1, 2, 1] False)\<lparr>m_positionOffset := 1\<rparr>) None)
           [7, 7] [1, 2, 9, 9] 2 1 0 255 = Some o2
         \<and> o1 ! 0 = o2 ! 0)"
proof -
  let ?f = "(exFilter [1, 2, 1] False)\<lparr>m_positionOffset := 1\<rparr>"
  let ?c = "exConv 0 ?f None"
  have f: "m_horFilter ?c = ?f" "m_useMinMax ?c = 0"
    by (simp_all add: exConv_def)
  have taps: "nat (m_numberOfTaps ?f) = 3" "m_positionOffset ?f = 1"
    by (simp_all add: exFilter_def)
  have none: "m_useMinMax ?c \<notin> {1, 2, 3}" by (simp add: f)
  have j: "(0::nat) < nat 1" and i: "(0::nat) < nat 2"
    and lo1: "nat 1 * nat 2 \<le> length [0, 0 :: real]"
    and lo2: "nat 1 * nat 2 \<le> length [7, 7 :: real]"
    and li1: "nat 1 * (2 * nat 2) \<le> length [1, 2, 3, 4 :: real]"
    and li2: "nat 1 * (2 * nat 2) \<le> length [1, 2, 9, 9 :: real]"
    by simp_all
  have agree: "\<forall>t<nat (m_numberOfTaps (m_horFilter ?c)).
        [1, 2, 3, 4 :: real] ! (0 * (2 * nat 2)
                + nat (iClip (2 * int 0 + int t - m_positionOffset (m_horFilter ?c)) 0 (2 * 2 - 1)))
      = [1, 2, 9, 9] ! (0 * (2 * nat 2)
                + nat (iClip (2 * int 0 + int t - m_positionOffset (m_horFilter ?c)) 0 (2 * 2 - 1)))"
    unfolding f taps by (simp add: iClip_def eval_nat_numeral All_less_Suc)
  from C9_none_policy_locality [OF none j i lo1 lo2 li1 li2 agree, of 0 255]
  have ex: "\<exists>o1 o2. filter_float ?c [0, 0] [1, 2, 3, 4] 2 1 0 255 = Some o1
         \<and> filter_float ?c [7, 7] [1, 2, 9, 9] 2 1 0 255 = Some o2
         \<and> o1 ! 0 = o2 ! 0"
    by simp
  show ?thesis
    using f(2) j i lo1 lo2 li1 li2 ex by (intro conjI)
qed

subsection \<open>C10: the fallback table of a converter\<close>

text \<open>
  Claim C10. A converter built by the constructor holds a fallback filter table exactly
  when its overshoot-policy selector is nonzero, and then that table is the one
  constructed from the method \<open>DF_F0\<close> with the phase of the primary filter, whatever
  the method of the primary filter is.
\<close>

theorem C10_fallback_table_invariant:
  "(m_horFilterM (Conv444to422Generic_new newScaleFilter DF_F0 width height method
                    chromaLocationType useMinMax) \<noteq> None)
     = (m_useMinMax (Conv444to422Generic_new newScaleFilter DF_F0 width height method
                       chromaLocationType useMinMax) \<noteq> 0)
   \<and> (m_useMinMax (Conv444to422Generic_new newScaleFilter DF_F0 width height method
                      chromaLocationType useMinMax) \<noteq> 0
        \<longrightarrow> m_horFilterM (Conv444to422Generic_new newScaleFilter DF_F0 width height method
                           chromaLocationType useMinMax)
             = Some (newScaleFilter DF_F0 0 2 0 0 (hPhase_of chromaLocationType)))
   \<and> m_horFilter (Conv444to422Generic_new newScaleFilter DF_F0 width height method
                    chromaLocationType useMinMax)
       = newScaleFilter method 0 2 0 0 (hPhase_of chromaLocationType)
   \<and> m_useMinMax (Conv444to422Generic_new newScaleFilter DF_F0 width height method
                    chromaLocationType useMinMax) = useMinMax"
  by (simp add: Conv444to422Generic_new_def Let_def)

theorem C10_fallback_table_invariant_witness:
  "m_useMinMax (Conv444to422Generic_new exNewScaleFilter 0 1920 1080 5 (\<lambda>fp. CL_ONE) 2) \<noteq> 0
   \<and> m_horFilterM (Conv444to422Generic_new exNewScaleFilter 0 1920 1080 5 (\<lambda>fp. CL_ONE) 2)
       = Some (exFilter [0, 1] False)
   \<and> m_horFilter (Conv444to422Generic_new exNewScaleFilter 0 1920 1080 5 (\<lambda>fp. CL_ONE) 2)
       = exFilter [5, 1] False"
  using C10_fallback_table_invariant [of exNewScaleFilter 0 1920 1080 5 "\<lambda>fp. CL_ONE" 2]
  by (simp add: exNewScaleFilter_def hPhase_of_def)

end
